theory Spec2Isabelle
  imports Main "HOL-Library.Word" "HOL-Library.Sublist" "HOL-Library.AList"
begin

section \<open>Data model\<close>

text \<open>
  A Go \<open>error\<close> value is its message; a run-time panic (nil dereference, write to a nil
  map) is kept apart from it, since it is not a value any step returns.
\<close>

datatype error = Err string | Panic string

text \<open>The values a task's \<open>Config\<close> map (\<open>map[string]interface{}\<close>) can hold.\<close>

datatype cfgval = VStr string | VInt int | VBool bool | VList "cfgval list"

subsection \<open>The job description of the scheduler's client library\<close>

record Constraint =
  LTarget :: string
  RTarget :: string
  Operand :: string

text \<open>\<open>ta_Config = None\<close> is the nil map; an association list keeps the entries.\<close>

record Task =
  ta_Name :: string
  ta_Config :: "(string \<times> cfgval) list option"

text \<open>
  \<open>Name\<close> and \<open>Count\<close> are pointers in the library: \<open>None\<close> is nil. The groups of a
  job and the tasks of a group are slices of pointers; a parsed job holds no nil group
  and no nil task, and the lists here hold the groups and tasks themselves.
\<close>

record TaskGroup =
  tg_Name :: "string option"
  tg_Count :: "int option"
  tg_Constraints :: "Constraint list"
  tg_Tasks :: "Task list"

record Job =
  job_Region :: "string option"
  Datacenters :: "string list"
  Constraints :: "Constraint list"
  TaskGroups :: "TaskGroup list"

definition NewConstraint :: "string \<Rightarrow> string \<Rightarrow> string \<Rightarrow> Constraint" where
  "NewConstraint left operand right = \<lparr>LTarget = left, RTarget = right, Operand = operand\<rparr>"

definition Constrain :: "Constraint \<Rightarrow> Job \<Rightarrow> Job" where
  "Constrain c j = j\<lparr>Constraints := Constraints j @ [c]\<rparr>"

definition AddDatacenter :: "string \<Rightarrow> Job \<Rightarrow> Job" where
  "AddDatacenter d j = j\<lparr>Datacenters := Datacenters j @ [d]\<rparr>"

definition JobTypeService :: string where
  "JobTypeService = ''service''"

definition DeploymentStatusRunning :: string where
  "DeploymentStatusRunning = ''running''"

definition DeploymentStatusSuccessful :: string where
  "DeploymentStatusSuccessful = ''successful''"

text \<open>\<open>time.Duration\<close> counts nanoseconds.\<close>

definition Second :: int where
  "Second = 1000000000"

subsection \<open>The scheduler's answers\<close>

record api_Config =
  cfg_Address :: string
  cfg_Region :: string

record JobPlanResponse =
  JobModifyIndex :: "64 word"

record JobRegisterResponse =
  EvalID :: string

record Evaluation =
  ev_DeploymentID :: string
  ev_Status :: string
  ev_Type :: string

record Deployment =
  dep_Status :: string
  dep_StatusDescription :: string

record QueryMeta =
  LastIndex :: "64 word"

record QueryOptions =
  WaitIndex :: "64 word"
  AllowStale :: bool
  WaitTime :: int

record TaskEvent =
  DriverError :: string
  DownloadError :: string
  ValidationError :: string
  SetupError :: string
  VaultError :: string

record TaskState =
  Events :: "TaskEvent list"

text \<open>
  \<open>TaskStates\<close> is a Go map ranged over by \<open>status\<close>: the list holds its entries in the
  order the runtime happens to visit them.
\<close>

record AllocationListStub =
  TaskStates :: "(string \<times> TaskState) list"

subsection \<open>Configuration\<close>

text \<open>
  Modelled from the spec: the declarations of \<open>ServiceConfig\<close> and \<open>DcConfig\<close> are not
  among the sources. The fields are those of the spec's data model; \<open>Services\<close> maps a
  service name to a ServiceConfig held by reference, so a write through the looked-up
  entry is a write to the map.
\<close>

record ServiceConfig =
  Image :: string
  Count :: int
  HostGroup :: string
  Node :: string
  DcRegion :: string
  CPU :: int
  Memory :: int
  Environment :: "string \<rightharpoonup> string"
  Arguments :: "string list"
  Volumes :: "string list"

text \<open>
  Modelled from the spec: a datacenter's region, its identifier, and its services by
  name.
\<close>

record DcConfig =
  dc_Region :: string
  Dc :: string
  Services :: "string \<rightharpoonup> ServiceConfig"

subsection \<open>The deployer\<close>

record Deployer =
  root :: string
  dc :: string
  service :: string
  image :: string
  address :: string
  config :: DcConfig
  job :: "Job option"
  cli :: "api_Config option"
  jobModifyIndex :: "64 word"
  jobEvalID :: string
  jobDeploymentID :: string

definition NewDeployer ::
  "string \<Rightarrow> string \<Rightarrow> string \<Rightarrow> string \<Rightarrow> DcConfig \<Rightarrow> string \<Rightarrow> Deployer" where
  "NewDeployer r d svc img cfg addr =
     \<lparr>root = r, dc = d, service = svc, image = img, address = addr, config = cfg,
      job = None, cli = None, jobModifyIndex = 0, jobEvalID = [], jobDeploymentID = []\<rparr>"

subsection \<open>The outside world\<close>

text \<open>
  What a run does to the outside, in order: files parsed, requests sent to the
  scheduler, pauses, text written to standard output. Log lines, and the clock
  readings that only feed them, are left out.
\<close>

datatype event =
    ParseFileCall string
  | NewClientCall api_Config
  | ValidateCall "Job option"
  | PlanCall "Job option" bool
  | EnforceRegisterCall "Job option" "64 word"
  | EvalInfoCall string
  | Sleep int
  | DeploymentInfoCall string QueryOptions
  | AllocationsCall string
  | Printf string

text \<open>
  The collaborators the deployer calls, as parameters: the job-file parser, the client
  constructor, and the scheduler, whose state \<open>'w\<close> every request may read and change.
\<close>

record 'w backend =
  ParseFile :: "string \<Rightarrow> error + Job"
  NewClient :: "api_Config \<Rightarrow> error + api_Config"
  JobsValidate :: "Job option \<Rightarrow> 'w \<Rightarrow> (error + unit) \<times> 'w"
  JobsPlan :: "Job option \<Rightarrow> bool \<Rightarrow> 'w \<Rightarrow> (error + JobPlanResponse) \<times> 'w"
  JobsEnforceRegister :: "Job option \<Rightarrow> 64 word \<Rightarrow> 'w \<Rightarrow> (error + JobRegisterResponse) \<times> 'w"
  EvaluationsInfo :: "string \<Rightarrow> 'w \<Rightarrow> (error + Evaluation) \<times> 'w"
  DeploymentsInfo :: "string \<Rightarrow> QueryOptions \<Rightarrow> 'w \<Rightarrow> (error + Deployment \<times> QueryMeta) \<times> 'w"
  DeploymentsAllocations :: "string \<Rightarrow> 'w \<Rightarrow> (error + AllocationListStub list) \<times> 'w"

text \<open>The state a step works on: the deployer, the scheduler, and what was done so far.\<close>

record 'w run =
  dpl :: Deployer
  sched :: 'w
  trace :: "event list"

definition emit :: "event list \<Rightarrow> 'w run \<Rightarrow> 'w run" where
  "emit es s = s\<lparr>trace := trace s @ es\<rparr>"

definition nil_deref :: error where
  "nil_deref = Panic ''invalid memory address or nil pointer dereference''"

definition nil_map_write :: error where
  "nil_map_write = Panic ''assignment to entry in nil map''"

section \<open>The steps\<close>

subsection \<open>checkServiceConfig and loadServiceConfig\<close>

text \<open>
  \<open>fmt\<close> renders a string operand under the verb \<open>%d\<close> as \<open>%!d(string=...)\<close>, and under
  \<open>%s\<close> as the string itself.
\<close>

definition fmt_d_string :: "string \<Rightarrow> string" where
  "fmt_d_string v = ''%!d(string='' @ v @ '')''"

definition checkServiceConfig :: "Deployer \<Rightarrow> error + unit" where
  "checkServiceConfig d =
     (case Services (config d) (service d) of
        None \<Rightarrow> Inl (Err (''service '' @ fmt_d_string (service d) @ '' not found in datacenter config''))
      | Some _ \<Rightarrow> Inr ())"

definition service_path :: "Deployer \<Rightarrow> string" where
  "service_path d = root d @ ''/nomad/service/'' @ service d @ ''.nomad''"

definition system_path :: "Deployer \<Rightarrow> string" where
  "system_path d = root d @ ''/nomad/system/'' @ service d @ ''.nomad''"

definition store_job :: "Job \<Rightarrow> 'w run \<Rightarrow> (error + unit) \<times> 'w run" where
  "store_job j s =
     (let d = (dpl s)\<lparr>job := Some j\<rparr> in (checkServiceConfig d, s\<lparr>dpl := d\<rparr>))"

definition loadServiceConfig :: "'w backend \<Rightarrow> 'w run \<Rightarrow> (error + unit) \<times> 'w run" where
  "loadServiceConfig b s =
     (case ParseFile b (service_path (dpl s)) of
        Inr j \<Rightarrow> store_job j (emit [ParseFileCall (service_path (dpl s))] s)
      | Inl _ \<Rightarrow>
          (case ParseFile b (system_path (dpl s)) of
             Inl err \<Rightarrow>
               (Inl err, emit [ParseFileCall (service_path (dpl s)),
                               ParseFileCall (system_path (dpl s))] s)
           | Inr j \<Rightarrow>
               store_job j (emit [ParseFileCall (service_path (dpl s)),
                                  ParseFileCall (system_path (dpl s))] s)))"

subsection \<open>connect\<close>

definition ClientConfig :: "string \<Rightarrow> string \<Rightarrow> bool \<Rightarrow> api_Config" where
  "ClientConfig region addr tlsEnabled =
     \<lparr>cfg_Address = (if tlsEnabled then ''https'' else ''http'') @ ''://'' @ addr,
      cfg_Region = region\<rparr>"

definition connect :: "'w backend \<Rightarrow> 'w run \<Rightarrow> (error + unit) \<times> 'w run" where
  "connect b s =
     (let c = ClientConfig (Dc (config (dpl s))) (address (dpl s)) False
      in case NewClient b c of
           Inl err \<Rightarrow> (Inl err, emit [NewClientCall c] s)
         | Inr k \<Rightarrow> (Inr (), emit [NewClientCall c] (s\<lparr>dpl := (dpl s)\<lparr>cli := Some k\<rparr>\<rparr>)))"

subsection \<open>validate\<close>

text \<open>
  The inner loop over the tasks of a matching group. A task named as the service gets
  the image written into its config map (a nil map panics) and the ServiceConfig's
  image is overwritten.
\<close>

fun merge_tasks ::
  "string \<Rightarrow> string \<Rightarrow> Task list \<Rightarrow> ServiceConfig \<Rightarrow> error + Task list \<times> ServiceConfig" where
  "merge_tasks svc img [] sc = Inr ([], sc)"
| "merge_tasks svc img (ta # tas) sc =
     (if ta_Name ta = svc then
        (case ta_Config ta of
           None \<Rightarrow> Inl nil_map_write
         | Some c \<Rightarrow>
             (case merge_tasks svc img tas (sc\<lparr>Image := img\<rparr>) of
                Inl e \<Rightarrow> Inl e
              | Inr (tas', sc') \<Rightarrow>
                  Inr (ta\<lparr>ta_Config := Some (AList.update ''image'' (VStr img) c)\<rparr> # tas', sc')))
      else
        (case merge_tasks svc img tas sc of
           Inl e \<Rightarrow> Inl e
         | Inr (tas', sc') \<Rightarrow> Inr (ta # tas', sc')))"

text \<open>The outer loop over the task groups; reading a nil group name panics.\<close>

fun merge_groups ::
  "string \<Rightarrow> string \<Rightarrow> TaskGroup list \<Rightarrow> ServiceConfig \<Rightarrow> error + TaskGroup list \<times> ServiceConfig" where
  "merge_groups svc img [] sc = Inr ([], sc)"
| "merge_groups svc img (tg # tgs) sc =
     (case tg_Name tg of
        None \<Rightarrow> Inl nil_deref
      | Some n \<Rightarrow>
          if n = svc then
            (case merge_tasks svc img (tg_Tasks tg) sc of
               Inl e \<Rightarrow> Inl e
             | Inr (tas, sc1) \<Rightarrow>
                 (case merge_groups svc img tgs sc1 of
                    Inl e \<Rightarrow> Inl e
                  | Inr (tgs', sc2) \<Rightarrow>
                      Inr ((if Count sc > 0 then tg\<lparr>tg_Count := Some (Count sc)\<rparr> else tg)
                             \<lparr>tg_Tasks := tas\<rparr> # tgs', sc2)))
          else
            (case merge_groups svc img tgs sc of
               Inl e \<Rightarrow> Inl e
             | Inr (tgs', sc') \<Rightarrow> Inr (tg # tgs', sc')))"

text \<open>The three placement constraints, added to the job in the order of the source.\<close>

definition constrain_job :: "ServiceConfig \<Rightarrow> Job \<Rightarrow> Job" where
  "constrain_job sc j =
     (let j1 = (if DcRegion sc \<noteq> [] then Constrain (NewConstraint ''${meta.dc_region}'' ''='' (DcRegion sc)) j else j);
          j2 = (if HostGroup sc \<noteq> [] then Constrain (NewConstraint ''${meta.hostgroup}'' ''='' (HostGroup sc)) j1 else j1)
      in if Node sc \<noteq> [] then Constrain (NewConstraint ''${meta.node}'' ''='' (Node sc)) j2 else j2)"

text \<open>
  The merge of the datacenter's settings into the job, before the scheduler is asked:
  the new job and the new configuration, or the panic.
\<close>

definition merge_job :: "Deployer \<Rightarrow> error + Job \<times> DcConfig" where
  "merge_job d =
     (case job d of
        None \<Rightarrow> Inl nil_deref
      | Some j0 \<Rightarrow>
          (case Services (config d) (service d) of
             None \<Rightarrow> Inl nil_deref
           | Some sc \<Rightarrow>
               (let j = constrain_job sc
                          (AddDatacenter (Dc (config d)) (j0\<lparr>job_Region := Some (dc_Region (config d))\<rparr>))
                in case merge_groups (service d) (image d) (TaskGroups j) sc of
                     Inl e \<Rightarrow> Inl e
                   | Inr (tgs, sc') \<Rightarrow>
                       Inr (j\<lparr>TaskGroups := tgs\<rparr>,
                            (config d)\<lparr>Services := (Services (config d))(service d \<mapsto> sc')\<rparr>))))"

definition validate :: "'w backend \<Rightarrow> 'w run \<Rightarrow> (error + unit) \<times> 'w run" where
  "validate b s =
     (case merge_job (dpl s) of
        Inl e \<Rightarrow> (Inl e, s)
      | Inr (j, cfg) \<Rightarrow>
          (let s1 = s\<lparr>dpl := (dpl s)\<lparr>job := Some j, config := cfg\<rparr>\<rparr>
           in case cli (dpl s) of
                None \<Rightarrow> (Inl nil_deref, s1)
              | Some _ \<Rightarrow>
                  (case JobsValidate b (Some j) (sched s) of
                     (Inl err, w) \<Rightarrow> (Inl err, emit [ValidateCall (Some j)] (s1\<lparr>sched := w\<rparr>))
                   | (Inr _, w) \<Rightarrow> (Inr (), emit [ValidateCall (Some j)] (s1\<lparr>sched := w\<rparr>)))))"

subsection \<open>plan\<close>

definition plan :: "'w backend \<Rightarrow> 'w run \<Rightarrow> (error + unit) \<times> 'w run" where
  "plan b s =
     (case cli (dpl s) of
        None \<Rightarrow> (Inl nil_deref, s)
      | Some _ \<Rightarrow>
          (case JobsPlan b (job (dpl s)) False (sched s) of
             (Inl err, w) \<Rightarrow> (Inl err, emit [PlanCall (job (dpl s)) False] (s\<lparr>sched := w\<rparr>))
           | (Inr jp, w) \<Rightarrow>
               (Inr (), emit [PlanCall (job (dpl s)) False]
                          (s\<lparr>dpl := (dpl s)\<lparr>jobModifyIndex := JobModifyIndex jp\<rparr>, sched := w\<rparr>))))"

subsection \<open>register and the wait for the deployment identifier\<close>

text \<open>
  The loop of \<open>getDeploymentID\<close> has no bound of its own. The first argument counts the
  rounds the model is allowed; \<open>None\<close> says the loop was still running when they were
  used up.
\<close>

fun getDeploymentID :: "nat \<Rightarrow> 'w backend \<Rightarrow> 'w run \<Rightarrow> ((error + unit) \<times> 'w run) option" where
  "getDeploymentID 0 b s = None"
| "getDeploymentID (Suc n) b s =
     (case cli (dpl s) of
        None \<Rightarrow> Some (Inl nil_deref, s)
      | Some _ \<Rightarrow>
          (case EvaluationsInfo b (jobEvalID (dpl s)) (sched s) of
             (Inl err, w) \<Rightarrow> Some (Inl err, emit [EvalInfoCall (jobEvalID (dpl s))] (s\<lparr>sched := w\<rparr>))
           | (Inr ev, w) \<Rightarrow>
               if ev_DeploymentID ev \<noteq> [] then
                 Some (Inr (), emit [EvalInfoCall (jobEvalID (dpl s))]
                                 (s\<lparr>dpl := (dpl s)\<lparr>jobDeploymentID := ev_DeploymentID ev\<rparr>, sched := w\<rparr>))
               else if ev_Status ev = ''complete'' \<and> ev_Type ev \<noteq> JobTypeService then
                 Some (Inr (), emit [EvalInfoCall (jobEvalID (dpl s))] (s\<lparr>sched := w\<rparr>))
               else
                 getDeploymentID n b
                   (emit [EvalInfoCall (jobEvalID (dpl s)), Sleep Second] (s\<lparr>sched := w\<rparr>))))"

definition register :: "nat \<Rightarrow> 'w backend \<Rightarrow> 'w run \<Rightarrow> ((error + unit) \<times> 'w run) option" where
  "register n b s =
     (case cli (dpl s) of
        None \<Rightarrow> Some (Inl nil_deref, s)
      | Some _ \<Rightarrow>
          (case JobsEnforceRegister b (job (dpl s)) (jobModifyIndex (dpl s)) (sched s) of
             (Inl err, w) \<Rightarrow>
               Some (Inl err, emit [EnforceRegisterCall (job (dpl s)) (jobModifyIndex (dpl s))]
                                (s\<lparr>sched := w\<rparr>))
           | (Inr jr, w) \<Rightarrow>
               getDeploymentID n b
                 (emit [EnforceRegisterCall (job (dpl s)) (jobModifyIndex (dpl s))]
                    (s\<lparr>dpl := (dpl s)\<lparr>jobEvalID := EvalID jr\<rparr>, sched := w\<rparr>))))"

subsection \<open>status\<close>

definition has_error :: "TaskEvent \<Rightarrow> bool" where
  "has_error e \<longleftrightarrow>
     DriverError e \<noteq> [] \<or> DownloadError e \<noteq> [] \<or> ValidationError e \<noteq> [] \<or>
     SetupError e \<noteq> [] \<or> VaultError e \<noteq> []"

text \<open>
  \<open>warn\<close> is a helper of the repository that is not among the sources; it is a
  parameter here. One \<open>Printf\<close> per event that carries an error.
\<close>

definition show_event :: "(string \<Rightarrow> string) \<Rightarrow> TaskEvent \<Rightarrow> event list" where
  "show_event warn e =
     (if has_error e then
        [Printf (warn (DriverError e) @ warn (DownloadError e) @ warn (ValidationError e) @
                 warn (SetupError e) @ warn (VaultError e))]
      else [])"

definition show_errors :: "(string \<Rightarrow> string) \<Rightarrow> AllocationListStub list \<Rightarrow> event list" where
  "show_errors warn al =
     concat (map (\<lambda>a. concat (map (\<lambda>(name, st). concat (map (show_event warn) (Events st)))
                                 (TaskStates a))) al)"

definition failed_message :: "Deployment \<Rightarrow> string" where
  "failed_message dep =
     ''deployment failed status: '' @ dep_Status dep @ '' '' @ dep_StatusDescription dep"

definition first_query :: QueryOptions where
  "first_query = \<lparr>WaitIndex = 1, AllowStale = True, WaitTime = 5 * Second\<rparr>"

text \<open>
  The loop of \<open>status\<close>, with the query options it carries from round to round. As above,
  the first argument counts the rounds allowed.
\<close>

fun status_loop ::
  "nat \<Rightarrow> 'w backend \<Rightarrow> (string \<Rightarrow> string) \<Rightarrow> string \<Rightarrow> QueryOptions \<Rightarrow> 'w run
     \<Rightarrow> ((error + unit) \<times> 'w run) option" where
  "status_loop 0 b warn depID q s = None"
| "status_loop (Suc n) b warn depID q s =
     (case cli (dpl s) of
        None \<Rightarrow> Some (Inl nil_deref, s)
      | Some _ \<Rightarrow>
          (case DeploymentsInfo b depID q (sched s) of
             (Inl err, w) \<Rightarrow> Some (Inl err, emit [DeploymentInfoCall depID q] (s\<lparr>sched := w\<rparr>))
           | (Inr (dep, meta), w) \<Rightarrow>
               if dep_Status dep = DeploymentStatusRunning then
                 status_loop n b warn depID (q\<lparr>WaitIndex := LastIndex meta\<rparr>)
                   (emit [DeploymentInfoCall depID q] (s\<lparr>sched := w\<rparr>))
               else if dep_Status dep = DeploymentStatusSuccessful then
                 Some (Inr (), emit [DeploymentInfoCall depID q] (s\<lparr>sched := w\<rparr>))
               else
                 (case DeploymentsAllocations b depID w of
                    (Inl _, w') \<Rightarrow>
                      Some (Inl (Err (failed_message dep)),
                            emit [DeploymentInfoCall depID q, AllocationsCall depID] (s\<lparr>sched := w'\<rparr>))
                  | (Inr al, w') \<Rightarrow>
                      Some (Inl (Err (failed_message dep)),
                            emit ([DeploymentInfoCall depID q, AllocationsCall depID] @ show_errors warn al)
                              (s\<lparr>sched := w'\<rparr>)))))"

definition status ::
  "nat \<Rightarrow> 'w backend \<Rightarrow> (string \<Rightarrow> string) \<Rightarrow> 'w run \<Rightarrow> ((error + unit) \<times> 'w run) option" where
  "status n b warn s =
     (if jobDeploymentID (dpl s) = [] then Some (Inr (), s)
      else status_loop n b warn (jobDeploymentID (dpl s)) first_query s)"

subsection \<open>Go\<close>

text \<open>
  Modelled from the spec: \<open>runSteps\<close> is not among the sources. By the spec the pipeline
  is fail-fast sequential: each step runs only if all prior steps succeeded; the first
  failing step's error is returned immediately and no later step runs.
\<close>

fun runSteps ::
  "('s \<Rightarrow> ((error + unit) \<times> 's) option) list \<Rightarrow> 's \<Rightarrow> ((error + unit) \<times> 's) option" where
  "runSteps [] s = Some (Inr (), s)"
| "runSteps (step # steps) s =
     (case step s of
        None \<Rightarrow> None
      | Some (Inl err, s') \<Rightarrow> Some (Inl err, s')
      | Some (Inr _, s') \<Rightarrow> runSteps steps s')"

definition returns :: "('s \<Rightarrow> (error + unit) \<times> 's) \<Rightarrow> 's \<Rightarrow> ((error + unit) \<times> 's) option" where
  "returns step s = Some (step s)"

definition Go ::
  "nat \<Rightarrow> 'w backend \<Rightarrow> (string \<Rightarrow> string) \<Rightarrow> 'w run \<Rightarrow> ((error + unit) \<times> 'w run) option" where
  "Go n b warn =
     runSteps [returns (loadServiceConfig b), returns (connect b), returns (validate b),
               returns (plan b), register n b, status n b warn]"

section \<open>What validate leaves, in closed form\<close>

text \<open>
  The loops of \<open>validate\<close> run to their end unless they meet a nil group name or a nil
  config map in a task they write to.
\<close>

definition tasks_writable :: "string \<Rightarrow> Task list \<Rightarrow> bool" where
  "tasks_writable svc tas \<longleftrightarrow> (\<forall>ta \<in> set tas. ta_Name ta = svc \<longrightarrow> ta_Config ta \<noteq> None)"

definition no_nil :: "string \<Rightarrow> TaskGroup list \<Rightarrow> bool" where
  "no_nil svc tgs \<longleftrightarrow>
     (\<forall>tg \<in> set tgs. tg_Name tg \<noteq> None \<and> (tg_Name tg = Some svc \<longrightarrow> tasks_writable svc (tg_Tasks tg)))"

text \<open>A task after the inner loop, a group after the outer loop, and whether the
  ServiceConfig's image was written.\<close>

definition with_image :: "string \<Rightarrow> string \<Rightarrow> Task \<Rightarrow> Task" where
  "with_image svc img ta =
     (if ta_Name ta = svc
      then ta\<lparr>ta_Config := map_option (AList.update ''image'' (VStr img)) (ta_Config ta)\<rparr>
      else ta)"

definition has_task :: "string \<Rightarrow> Task list \<Rightarrow> bool" where
  "has_task svc tas \<longleftrightarrow> (\<exists>ta \<in> set tas. ta_Name ta = svc)"

definition has_service_task :: "string \<Rightarrow> TaskGroup list \<Rightarrow> bool" where
  "has_service_task svc tgs \<longleftrightarrow> (\<exists>tg \<in> set tgs. tg_Name tg = Some svc \<and> has_task svc (tg_Tasks tg))"

definition with_overrides :: "string \<Rightarrow> string \<Rightarrow> int \<Rightarrow> TaskGroup \<Rightarrow> TaskGroup" where
  "with_overrides svc img cnt tg =
     (if tg_Name tg = Some svc
      then tg\<lparr>tg_Count := (if cnt > 0 then Some cnt else tg_Count tg),
              tg_Tasks := map (with_image svc img) (tg_Tasks tg)\<rparr>
      else tg)"

definition merged_job :: "Deployer \<Rightarrow> Job \<Rightarrow> ServiceConfig \<Rightarrow> Job" where
  "merged_job d j0 sc =
     j0\<lparr>job_Region := Some (dc_Region (config d)),
        Datacenters := Datacenters j0 @ [Dc (config d)],
        Constraints := Constraints j0
          @ (if DcRegion sc \<noteq> [] then [\<lparr>LTarget = ''${meta.dc_region}'', RTarget = DcRegion sc, Operand = ''=''\<rparr>] else [])
          @ (if HostGroup sc \<noteq> [] then [\<lparr>LTarget = ''${meta.hostgroup}'', RTarget = HostGroup sc, Operand = ''=''\<rparr>] else [])
          @ (if Node sc \<noteq> [] then [\<lparr>LTarget = ''${meta.node}'', RTarget = Node sc, Operand = ''=''\<rparr>] else []),
        TaskGroups := map (with_overrides (service d) (image d) (Count sc)) (TaskGroups j0)\<rparr>"

section \<open>The wait for the deployment identifier, round by round\<close>

text \<open>
  The three conditions under which the spec lets the wait end, on the answer to one
  evaluation query: the query failed, the evaluation carries a deployment identifier, or
  it is complete and its job is not of the service type.
\<close>

definition eval_stops :: "error + Evaluation \<Rightarrow> bool" where
  "eval_stops r \<longleftrightarrow>
     (case r of
        Inl _ \<Rightarrow> True
      | Inr ev \<Rightarrow> ev_DeploymentID ev \<noteq> [] \<or> (ev_Status ev = ''complete'' \<and> ev_Type ev \<noteq> ''service''))"

text \<open>
  One round of the loop of \<open>getDeploymentID\<close>, taken apart: the answer to the query, the
  state once the query was made, the state after the pause that follows a query that
  does not end the wait, and what the loop returns when the query ends it.
\<close>

definition answer :: "'w backend \<Rightarrow> 'w run \<Rightarrow> error + Evaluation" where
  "answer b s = fst (EvaluationsInfo b (jobEvalID (dpl s)) (sched s))"

definition asked :: "'w backend \<Rightarrow> 'w run \<Rightarrow> 'w run" where
  "asked b s =
     emit [EvalInfoCall (jobEvalID (dpl s))]
       (s\<lparr>sched := snd (EvaluationsInfo b (jobEvalID (dpl s)) (sched s))\<rparr>)"

definition retry :: "'w backend \<Rightarrow> 'w run \<Rightarrow> 'w run" where
  "retry b s = emit [Sleep Second] (asked b s)"

definition last_round :: "'w backend \<Rightarrow> 'w run \<Rightarrow> (error + unit) \<times> 'w run" where
  "last_round b s =
     (case answer b s of
        Inl err \<Rightarrow> (Inl err, asked b s)
      | Inr ev \<Rightarrow>
          (Inr (),
           if ev_DeploymentID ev \<noteq> []
           then (asked b s)\<lparr>dpl := (dpl s)\<lparr>jobDeploymentID := ev_DeploymentID ev\<rparr>\<rparr>
           else asked b s))"

text \<open>The wait ends in round \<open>k\<close> (counted from 0) and in no earlier round.\<close>

definition first_stop :: "'w backend \<Rightarrow> 'w run \<Rightarrow> nat \<Rightarrow> bool" where
  "first_stop b s k \<longleftrightarrow>
     (\<forall>i<k. \<not> eval_stops (answer b ((retry b ^^ i) s))) \<and> eval_stops (answer b ((retry b ^^ k) s))"

section \<open>The events status looks at\<close>

text \<open>The events of all task states of all allocations, in the order \<open>status\<close> visits them.\<close>

definition all_events :: "AllocationListStub list \<Rightarrow> TaskEvent list" where
  "all_events al = concat (map (\<lambda>a. concat (map (\<lambda>nst. Events (snd nst)) (TaskStates a))) al)"

section \<open>A scripted scheduler and a sample service\<close>

text \<open>
  A scheduler for the examples: it keeps the job's modify index and refuses a
  registration whose index is not the current one, and it answers the evaluation and
  deployment queries from two scripts, one answer per request. An evaluation asked for
  after its script has run out is still pending.
\<close>

record scripted =
  cur_index :: "64 word"
  evals :: "(error + Evaluation) list"
  deps :: "(error + Deployment \<times> QueryMeta) list"
  allocs :: "error + AllocationListStub list"

definition pending_eval :: Evaluation where
  "pending_eval = \<lparr>ev_DeploymentID = [], ev_Status = ''pending'', ev_Type = ''service''\<rparr>"

definition scripted_backend :: "(string \<Rightarrow> error + Job) \<Rightarrow> scripted backend" where
  "scripted_backend files =
     \<lparr>ParseFile = files,
      NewClient = Inr,
      JobsValidate = (\<lambda>j w. (Inr (), w)),
      JobsPlan = (\<lambda>j diff w. (Inr \<lparr>JobModifyIndex = cur_index w\<rparr>, w)),
      JobsEnforceRegister = (\<lambda>j i w.
        if i = cur_index w then (Inr \<lparr>EvalID = ''eval-1''\<rparr>, w\<lparr>cur_index := cur_index w + 1\<rparr>)
        else (Inl (Err ''job modify index conflict''), w)),
      EvaluationsInfo = (\<lambda>ident w.
        case evals w of [] \<Rightarrow> (Inr pending_eval, w) | r # rs \<Rightarrow> (r, w\<lparr>evals := rs\<rparr>)),
      DeploymentsInfo = (\<lambda>ident q w.
        case deps w of [] \<Rightarrow> (Inl (Err ''deployment not found''), w) | r # rs \<Rightarrow> (r, w\<lparr>deps := rs\<rparr>)),
      DeploymentsAllocations = (\<lambda>ident w. (allocs w, w))\<rparr>"

definition web_task :: Task where
  "web_task = \<lparr>ta_Name = ''web'', ta_Config = Some [(''image'', VStr ''web:old'')]\<rparr>"

definition web_group :: TaskGroup where
  "web_group = \<lparr>tg_Name = Some ''web'', tg_Count = Some 1, tg_Constraints = [], tg_Tasks = [web_task]\<rparr>"

definition web_job :: Job where
  "web_job = \<lparr>job_Region = None, Datacenters = [], Constraints = [], TaskGroups = [web_group]\<rparr>"

definition no_file :: "error + Job" where
  "no_file = Inl (Err ''no such file or directory'')"

definition service_files :: "string \<Rightarrow> error + Job" where
  "service_files path = (if path = ''/srv/nomad/service/web.nomad'' then Inr web_job else no_file)"

definition system_files :: "string \<Rightarrow> error + Job" where
  "system_files path = (if path = ''/srv/nomad/system/web.nomad'' then Inr web_job else no_file)"

definition web_config :: ServiceConfig where
  "web_config = \<lparr>Image = ''web:static'', Count = 3, HostGroup = ''app'', Node = ''app1'', DcRegion = ''r1'',
     CPU = 64, Memory = 128, Environment = Map.empty, Arguments = [], Volumes = []\<rparr>"

definition dc1 :: DcConfig where
  "dc1 = \<lparr>dc_Region = ''eu'', Dc = ''dc1'', Services = [''web'' \<mapsto> web_config]\<rparr>"

definition empty_dc :: DcConfig where
  "empty_dc = \<lparr>dc_Region = ''eu'', Dc = ''dc2'', Services = Map.empty\<rparr>"

definition quiet :: scripted where
  "quiet = \<lparr>cur_index = 7, evals = [], deps = [], allocs = Inr []\<rparr>"

definition start :: "DcConfig \<Rightarrow> scripted \<Rightarrow> scripted run" where
  "start cfg w = \<lparr>dpl = NewDeployer ''/srv'' ''dc1'' ''web'' ''web:42'' cfg ''10.0.0.1:4646'', sched = w, trace = []\<rparr>"

definition bracket_warn :: "string \<Rightarrow> string" where
  "bracket_warn t = (if t = [] then [] else ''['' @ t @ '']'')"


definition batch_group :: TaskGroup where
  "batch_group = \<lparr>tg_Name = Some ''batch'', tg_Count = Some 2, tg_Constraints = [],
     tg_Tasks = [\<lparr>ta_Name = ''web'', ta_Config = Some [(''image'', VStr ''batch:1'')]\<rparr>]\<rparr>"

definition batch_job :: Job where
  "batch_job = \<lparr>job_Region = None, Datacenters = [], Constraints = [], TaskGroups = [batch_group]\<rparr>"

definition nginx_task :: Task where
  "nginx_task = \<lparr>ta_Name = ''nginx'', ta_Config = Some [(''image'', VStr ''nginx:1'')]\<rparr>"

definition sidecar_job :: Job where
  "sidecar_job = \<lparr>job_Region = None, Datacenters = [], Constraints = [],
     TaskGroups = [\<lparr>tg_Name = Some ''web'', tg_Count = Some 1, tg_Constraints = [], tg_Tasks = [nginx_task]\<rparr>]\<rparr>"

definition dc1_defaults :: DcConfig where
  "dc1_defaults = \<lparr>dc_Region = ''eu'', Dc = ''dc1'',
     Services = [''web'' \<mapsto> web_config\<lparr>Count := 0, HostGroup := [], Node := [], DcRegion := []\<rparr>]\<rparr>"

definition ready :: "Job \<Rightarrow> DcConfig \<Rightarrow> scripted \<Rightarrow> scripted run" where
  "ready j cfg w =
     \<lparr>dpl = (NewDeployer ''/srv'' ''dc1'' ''web'' ''web:42'' cfg ''10.0.0.1:4646'')
              \<lparr>job := Some j, cli := Some (ClientConfig ''dc1'' ''10.0.0.1:4646'' False)\<rparr>,
      sched = w, trace = []\<rparr>"

definition polling :: "(error + Evaluation) list \<Rightarrow> scripted run" where
  "polling answers =
     \<lparr>dpl = (dpl (ready web_job dc1 quiet))\<lparr>jobEvalID := ''eval-1''\<rparr>,
      sched = quiet\<lparr>evals := answers\<rparr>, trace = []\<rparr>"

definition deployed_eval :: Evaluation where
  "deployed_eval = \<lparr>ev_DeploymentID = ''dep-1'', ev_Status = ''complete'', ev_Type = ''service''\<rparr>"

definition contended_backend :: "(string \<Rightarrow> error + Job) \<Rightarrow> scripted backend" where
  "contended_backend files =
     (scripted_backend files)
       \<lparr>JobsPlan := (\<lambda>j diff w. (Inr \<lparr>JobModifyIndex = cur_index w\<rparr>, w\<lparr>cur_index := cur_index w + 1\<rparr>))\<rparr>"

definition deployed :: "(error + Deployment \<times> QueryMeta) list \<Rightarrow> (error + AllocationListStub list) \<Rightarrow> scripted run" where
  "deployed answers al =
     \<lparr>dpl = (dpl (ready web_job dc1 quiet))\<lparr>jobDeploymentID := ''dep-1''\<rparr>,
      sched = quiet\<lparr>deps := answers, allocs := al\<rparr>, trace = []\<rparr>"

definition seen :: "string \<Rightarrow> string \<Rightarrow> 64 word \<Rightarrow> error + Deployment \<times> QueryMeta" where
  "seen st descr i = Inr (\<lparr>dep_Status = st, dep_StatusDescription = descr\<rparr>, \<lparr>LastIndex = i\<rparr>)"

definition oom_event :: TaskEvent where
  "oom_event = \<lparr>DriverError = ''OOM killed'', DownloadError = [], ValidationError = [],
     SetupError = [], VaultError = []\<rparr>"

definition started_event :: TaskEvent where
  "started_event = \<lparr>DriverError = [], DownloadError = [], ValidationError = [],
     SetupError = [], VaultError = []\<rparr>"

definition oom_allocs :: "AllocationListStub list" where
  "oom_allocs = [\<lparr>TaskStates = [(''web'', \<lparr>Events = [started_event, oom_event]\<rparr>)]\<rparr>]"

section \<open>Properties\<close>

subsection \<open>Auxiliary facts\<close>

lemma fmt_d_differs: "''service '' @ fmt_d_string v @ rest \<noteq> ''service '' @ v @ rest"
proof
  assume "''service '' @ fmt_d_string v @ rest = ''service '' @ v @ rest"
  then have "length (''service '' @ fmt_d_string v @ rest) = length (''service '' @ v @ rest)" by (rule arg_cong)
  then show False by (simp add: fmt_d_string_def)
qed

lemma checkServiceConfig_absent:
  "Services (config d) (service d) = None \<Longrightarrow>
   checkServiceConfig d = Inl (Err (''service %!d(string='' @ service d @ '') not found in datacenter config''))"
  by (simp add: checkServiceConfig_def fmt_d_string_def)


lemma store_job_fst: "fst (store_job j s) = checkServiceConfig (dpl s)"
  by (simp add: store_job_def checkServiceConfig_def Let_def split: option.splits)

lemma store_job_snd: "snd (store_job j s) = s\<lparr>dpl := (dpl s)\<lparr>job := Some j\<rparr>\<rparr>"
  by (simp add: store_job_def Let_def)

lemma dpl_emit [simp]: "dpl (emit es s) = dpl s"
  by (simp add: emit_def)

lemma sched_emit [simp]: "sched (emit es s) = sched s"
  by (simp add: emit_def)

lemma trace_emit [simp]: "trace (emit es s) = trace s @ es"
  by (simp add: emit_def)

lemma loadServiceConfig_fst:
  "fst (loadServiceConfig b s) =
     (case ParseFile b (service_path (dpl s)) of
        Inr j \<Rightarrow> checkServiceConfig (dpl s)
      | Inl _ \<Rightarrow> (case ParseFile b (system_path (dpl s)) of
                    Inr j \<Rightarrow> checkServiceConfig (dpl s)
                  | Inl e \<Rightarrow> Inl e))"
  by (simp add: loadServiceConfig_def store_job_fst split: sum.splits)

lemma Go_stops_at_load:
  "fst (loadServiceConfig b s) = Inl e \<Longrightarrow> Go n b warn s = Some (loadServiceConfig b s)"
  by (cases "loadServiceConfig b s") (simp add: Go_def returns_def)

lemma merge_tasks_closed:
  "tasks_writable svc tas \<Longrightarrow>
   merge_tasks svc img tas sc =
     Inr (map (with_image svc img) tas, if has_task svc tas then sc\<lparr>Image := img\<rparr> else sc)"
proof (induction tas arbitrary: sc)
  case Nil
  then show ?case by (simp add: has_task_def)
next
  case (Cons ta tas)
  then have w: "tasks_writable svc tas"
    by (simp add: tasks_writable_def)
  show ?case
  proof (cases "ta_Name ta = svc")
    case True
    with Cons.prems obtain c where c: "ta_Config ta = Some c"
      by (auto simp add: tasks_writable_def)
    show ?thesis
      using True c Cons.IH [OF w, of "sc\<lparr>Image := img\<rparr>"]
      by (simp add: with_image_def has_task_def)
  next
    case False
    then show ?thesis
      using Cons.IH [OF w, of sc] by (simp add: with_image_def has_task_def)
  qed
qed

lemma merge_tasks_panics:
  "\<not> tasks_writable svc tas \<Longrightarrow> merge_tasks svc img tas sc = Inl nil_map_write"
proof (induction tas arbitrary: sc)
  case Nil
  then show ?case by (simp add: tasks_writable_def)
next
  case (Cons ta tas)
  show ?case
  proof (cases "tasks_writable svc tas")
    case True
    with Cons.prems have "ta_Name ta = svc \<and> ta_Config ta = None"
      by (auto simp add: tasks_writable_def)
    then show ?thesis by simp
  next
    case False
    then show ?thesis
      using Cons.IH [OF False] by (simp split: option.splits)
  qed
qed

lemma merge_groups_closed:
  "no_nil svc tgs \<Longrightarrow>
   merge_groups svc img tgs sc =
     Inr (map (with_overrides svc img (Count sc)) tgs,
          if has_service_task svc tgs then sc\<lparr>Image := img\<rparr> else sc)"
proof (induction tgs arbitrary: sc)
  case Nil
  then show ?case by (simp add: has_service_task_def)
next
  case (Cons tg tgs)
  then have w: "no_nil svc tgs"
    by (simp add: no_nil_def)
  from Cons.prems obtain n where n: "tg_Name tg = Some n"
    by (auto simp add: no_nil_def)
  show ?case
  proof (cases "n = svc")
    case True
    with n Cons.prems have tw: "tasks_writable svc (tg_Tasks tg)"
      by (simp add: no_nil_def)
    show ?thesis
      using True n merge_tasks_closed [OF tw, of img sc]
        Cons.IH [OF w, of "sc\<lparr>Image := img\<rparr>"] Cons.IH [OF w, of sc]
      by (auto simp add: with_overrides_def has_service_task_def)
  next
    case False
    then show ?thesis
      using n Cons.IH [OF w, of sc]
      by (simp add: with_overrides_def has_service_task_def)
  qed
qed

lemma merge_groups_panics:
  "\<not> no_nil svc tgs \<Longrightarrow> \<exists>e. merge_groups svc img tgs sc = Inl e"
proof (induction tgs arbitrary: sc)
  case Nil
  then show ?case by (simp add: no_nil_def)
next
  case (Cons tg tgs)
  show ?case
  proof (cases "no_nil svc tgs")
    case True
    with Cons.prems have "tg_Name tg = None \<or> (tg_Name tg = Some svc \<and> \<not> tasks_writable svc (tg_Tasks tg))"
      by (auto simp add: no_nil_def)
    then show ?thesis
      by (auto simp add: merge_tasks_panics)
  next
    case False
    obtain e1 where e1: "merge_groups svc img tgs sc = Inl e1"
      using Cons.IH [OF False, of sc] by blast
    show ?thesis
    proof (cases "tg_Name tg")
      case None
      then show ?thesis by simp
    next
      case (Some n)
      show ?thesis
      proof (cases "n = svc")
        case False
        then show ?thesis using Some e1 by simp
      next
        case True
        show ?thesis
        proof (cases "merge_tasks svc img (tg_Tasks tg) sc")
          case (Inl e)
          then show ?thesis using Some True by simp
        next
          case (Inr r)
          obtain tas sc1 where r: "r = (tas, sc1)" by (cases r)
          obtain e2 where "merge_groups svc img tgs sc1 = Inl e2"
            using Cons.IH [OF False, of sc1] by blast
          then show ?thesis
            using Some True Inr r by simp
        qed
      qed
    qed
  qed
qed

lemma constrain_job_closed:
  "constrain_job sc j =
     j\<lparr>Constraints := Constraints j
          @ (if DcRegion sc \<noteq> [] then [\<lparr>LTarget = ''${meta.dc_region}'', RTarget = DcRegion sc, Operand = ''=''\<rparr>] else [])
          @ (if HostGroup sc \<noteq> [] then [\<lparr>LTarget = ''${meta.hostgroup}'', RTarget = HostGroup sc, Operand = ''=''\<rparr>] else [])
          @ (if Node sc \<noteq> [] then [\<lparr>LTarget = ''${meta.node}'', RTarget = Node sc, Operand = ''=''\<rparr>] else [])\<rparr>"
  by (simp add: constrain_job_def Constrain_def NewConstraint_def)

lemma merge_job_closed:
  assumes "job d = Some j0" "Services (config d) (service d) = Some sc" "no_nil (service d) (TaskGroups j0)"
  shows "merge_job d =
     Inr (merged_job d j0 sc,
          (config d)\<lparr>Services := (Services (config d))
             (service d \<mapsto> (if has_service_task (service d) (TaskGroups j0) then sc\<lparr>Image := image d\<rparr> else sc))\<rparr>)"
  using assms merge_groups_closed [OF assms(3), of "image d" sc]
  by (simp add: merge_job_def constrain_job_closed AddDatacenter_def merged_job_def)

lemma validate_after_merge:
  "merge_job (dpl s) = Inr (j, cfg) \<Longrightarrow>
   job (dpl (snd (validate b s))) = Some j \<and> config (dpl (snd (validate b s))) = cfg"
  by (simp add: validate_def Let_def split: option.splits prod.splits sum.splits)

lemma validate_closed:
  assumes "job (dpl s) = Some j0" "Services (config (dpl s)) (service (dpl s)) = Some sc"
    "no_nil (service (dpl s)) (TaskGroups j0)"
  shows "job (dpl (snd (validate b s))) = Some (merged_job (dpl s) j0 sc)"
    and "config (dpl (snd (validate b s))) =
      (config (dpl s))\<lparr>Services := (Services (config (dpl s)))
             (service (dpl s) \<mapsto> (if has_service_task (service (dpl s)) (TaskGroups j0)
                                     then sc\<lparr>Image := image (dpl s)\<rparr> else sc))\<rparr>"
  using validate_after_merge [OF merge_job_closed [OF assms], of b] by simp_all

lemma ready_fields:
  "job (dpl (ready j cfg w)) = Some j" "service (dpl (ready j cfg w)) = ''web''"
  "config (dpl (ready j cfg w)) = cfg" "image (dpl (ready j cfg w)) = ''web:42''"
  "cli (dpl (ready j cfg w)) = Some (ClientConfig ''dc1'' ''10.0.0.1:4646'' False)"
  "sched (ready j cfg w) = w" "trace (ready j cfg w) = []"
  by (simp_all add: ready_def NewDeployer_def)

lemma no_nil_web: "no_nil ''web'' (TaskGroups web_job)"
  by (simp add: no_nil_def tasks_writable_def web_job_def web_group_def web_task_def)

lemma no_nil_batch: "no_nil ''web'' (TaskGroups batch_job)"
  by (simp add: no_nil_def batch_job_def batch_group_def)

lemma no_nil_sidecar: "no_nil ''web'' (TaskGroups sidecar_job)"
  by (simp add: no_nil_def tasks_writable_def sidecar_job_def nginx_task_def)

lemma dpl_asked [simp]: "dpl (asked b s) = dpl s"
  by (simp add: asked_def)

lemma dpl_retry [simp]: "dpl (retry b s) = dpl s"
  by (simp add: retry_def)

lemma dpl_retries [simp]: "dpl ((retry b ^^ k) s) = dpl s"
  by (induction k) simp_all

lemma trace_retry:
  "trace (retry b s) = trace s @ [EvalInfoCall (jobEvalID (dpl s)), Sleep Second]"
  by (simp add: retry_def asked_def)

lemma trace_retries:
  "trace ((retry b ^^ k) s) =
     trace s @ concat (replicate k [EvalInfoCall (jobEvalID (dpl s)), Sleep Second])"
proof (induction k)
  case 0
  then show ?case by simp
next
  case (Suc k)
  have "concat (replicate k [EvalInfoCall (jobEvalID (dpl s)), Sleep Second])
          @ [EvalInfoCall (jobEvalID (dpl s)), Sleep Second]
        = concat (replicate (Suc k) [EvalInfoCall (jobEvalID (dpl s)), Sleep Second])"
    by (simp add: replicate_append_same [symmetric])
  then show ?case
    using Suc by (simp add: trace_retry del: replicate_Suc concat.simps)
qed

lemma getDeploymentID_stop:
  assumes "cli (dpl s) \<noteq> None" "eval_stops (answer b s)"
  shows "getDeploymentID (Suc n) b s = Some (last_round b s)"
proof -
  obtain r w where rw: "EvaluationsInfo b (jobEvalID (dpl s)) (sched s) = (r, w)"
    by (cases "EvaluationsInfo b (jobEvalID (dpl s)) (sched s)")
  show ?thesis
  proof (cases r)
    case (Inl err)
    then show ?thesis
      using assms(1) rw by (auto simp add: last_round_def answer_def asked_def emit_def)
  next
    case (Inr ev)
    then show ?thesis
      using assms rw
      by (auto simp add: last_round_def answer_def asked_def emit_def eval_stops_def JobTypeService_def)
  qed
qed

lemma getDeploymentID_retry:
  assumes "cli (dpl s) \<noteq> None" "\<not> eval_stops (answer b s)"
  shows "getDeploymentID (Suc n) b s = getDeploymentID n b (retry b s)"
proof -
  obtain r w where rw: "EvaluationsInfo b (jobEvalID (dpl s)) (sched s) = (r, w)"
    by (cases "EvaluationsInfo b (jobEvalID (dpl s)) (sched s)")
  from assms(2) rw obtain ev where ev: "r = Inr ev"
    by (cases r) (simp_all add: eval_stops_def answer_def)
  show ?thesis
    using assms rw ev
    by (auto simp add: retry_def answer_def asked_def emit_def eval_stops_def JobTypeService_def)
qed

lemma first_stop_now: "eval_stops (answer b s) \<Longrightarrow> first_stop b s k \<longleftrightarrow> k = 0"
  by (cases k) (auto simp add: first_stop_def)

lemma first_stop_later:
  assumes "\<not> eval_stops (answer b s)"
  shows "first_stop b s k \<longleftrightarrow> (\<exists>m. k = Suc m \<and> first_stop b (retry b s) m)"
proof (cases k)
  case 0
  then show ?thesis using assms by (simp add: first_stop_def)
next
  case (Suc m)
  have "(\<forall>i<Suc m. \<not> eval_stops (answer b ((retry b ^^ i) s)))
          \<longleftrightarrow> (\<forall>i<m. \<not> eval_stops (answer b ((retry b ^^ i) (retry b s))))"
    using assms by (auto simp add: less_Suc_eq_0_disj funpow_swap1)
  then show ?thesis
    using Suc by (simp add: first_stop_def funpow_swap1)
qed

lemma getDeploymentID_returns:
  "cli (dpl s) \<noteq> None \<Longrightarrow>
   getDeploymentID n b s = Some out \<longleftrightarrow>
     (\<exists>k<n. first_stop b s k \<and> out = last_round b ((retry b ^^ k) s))"
proof (induction n arbitrary: s)
  case 0
  then show ?case by simp
next
  case (Suc n)
  show ?case
  proof (cases "eval_stops (answer b s)")
    case True
    then show ?thesis
      using getDeploymentID_stop [OF Suc.prems True, of n]
      by (auto simp add: first_stop_now)
  next
    case False
    have c: "cli (dpl (retry b s)) \<noteq> None"
      using Suc.prems by simp
    have "getDeploymentID (Suc n) b s = Some out \<longleftrightarrow>
        (\<exists>k<n. first_stop b (retry b s) k \<and> out = last_round b ((retry b ^^ k) (retry b s)))"
      using getDeploymentID_retry [OF Suc.prems False, of n] Suc.IH [OF c] by simp
    also have "\<dots> \<longleftrightarrow> (\<exists>k<Suc n. first_stop b s k \<and> out = last_round b ((retry b ^^ k) s))"
      using first_stop_later [OF False]
      by (auto simp add: funpow_swap1 less_Suc_eq_0_disj)
    finally show ?thesis .
  qed
qed


lemma last_round_result:
  "fst (last_round b t) = (case answer b t of Inl err \<Rightarrow> Inl err | Inr _ \<Rightarrow> Inr ())"
  by (simp add: last_round_def split: sum.splits)

lemma last_round_deployment:
  "jobDeploymentID (dpl (snd (last_round b t))) =
     (case answer b t of
        Inl _ \<Rightarrow> jobDeploymentID (dpl t)
      | Inr ev \<Rightarrow> if ev_DeploymentID ev \<noteq> [] then ev_DeploymentID ev else jobDeploymentID (dpl t))"
  by (simp add: last_round_def split: sum.splits)

lemma last_round_trace:
  "trace (snd (last_round b ((retry b ^^ k) s))) =
     trace s @ concat (replicate k [EvalInfoCall (jobEvalID (dpl s)), Sleep Second])
       @ [EvalInfoCall (jobEvalID (dpl s))]"
  by (simp add: last_round_def asked_def trace_retries split: sum.splits)

lemma register_enters:
  assumes "cli (dpl s) \<noteq> None"
    "JobsEnforceRegister b (job (dpl s)) (jobModifyIndex (dpl s)) (sched s) = (Inr jr, w)"
  shows "register n b s =
     getDeploymentID n b
       (emit [EnforceRegisterCall (job (dpl s)) (jobModifyIndex (dpl s))]
          (s\<lparr>dpl := (dpl s)\<lparr>jobEvalID := EvalID jr\<rparr>, sched := w\<rparr>))"
  using assms by (auto simp add: register_def)

lemma polling_fields:
  "cli (dpl (polling a)) = Some (ClientConfig ''dc1'' ''10.0.0.1:4646'' False)"
  "jobEvalID (dpl (polling a)) = ''eval-1''" "jobDeploymentID (dpl (polling a)) = []"
  "sched (polling a) = quiet\<lparr>evals := a\<rparr>" "trace (polling a) = []"
  by (simp_all add: polling_def ready_def NewDeployer_def)

lemma scripted_answer:
  "answer (scripted_backend f) s =
     (case evals (sched s) of [] \<Rightarrow> Inr pending_eval | r # rs \<Rightarrow> r)"
  by (simp add: answer_def scripted_backend_def split: list.splits)

lemma scripted_retry:
  "evals (sched (retry (scripted_backend f) s)) = tl (evals (sched s))"
  by (simp add: retry_def asked_def scripted_backend_def split: list.splits)

lemma scripted_retries:
  "evals (sched ((retry (scripted_backend f) ^^ k) s)) = drop k (evals (sched s))"
  by (induction k) (simp_all add: scripted_retry drop_Suc tl_drop)

lemma pending_goes_on: "\<not> eval_stops (Inr pending_eval)"
  by (simp add: eval_stops_def pending_eval_def)

lemma plan_succeeded:
  assumes "plan b s = (Inr (), s1)"
  shows "cli (dpl s) \<noteq> None"
    and "\<exists>jp w. JobsPlan b (job (dpl s)) False (sched s) = (Inr jp, w)
           \<and> s1 = emit [PlanCall (job (dpl s)) False]
                    (s\<lparr>dpl := (dpl s)\<lparr>jobModifyIndex := JobModifyIndex jp\<rparr>, sched := w\<rparr>)"
  using assms by (auto simp add: plan_def split: option.splits sum.splits prod.splits)

lemma register_refused:
  assumes "cli (dpl s) \<noteq> None"
    "JobsEnforceRegister b (job (dpl s)) (jobModifyIndex (dpl s)) (sched s) = (Inl err, w)"
  shows "register n b s =
     Some (Inl err, emit [EnforceRegisterCall (job (dpl s)) (jobModifyIndex (dpl s))] (s\<lparr>sched := w\<rparr>))"
  using assms by (auto simp add: register_def)

lemma ready_plan_contended:
  "plan (contended_backend service_files) (ready web_job dc1 quiet) =
     (Inr (), emit [PlanCall (Some web_job) False]
        ((ready web_job dc1 quiet)
           \<lparr>dpl := (dpl (ready web_job dc1 quiet))\<lparr>jobModifyIndex := 7\<rparr>,
            sched := quiet\<lparr>cur_index := 8\<rparr>\<rparr>))"
  by (simp add: plan_def contended_backend_def scripted_backend_def ready_fields quiet_def)

lemma status_loop_running:
  assumes "cli (dpl s) \<noteq> None" "DeploymentsInfo b depID q (sched s) = (Inr (dep, meta), w)"
    "dep_Status dep = ''running''"
  shows "status_loop (Suc n) b warn depID q s =
     status_loop n b warn depID (q\<lparr>WaitIndex := LastIndex meta\<rparr>)
       (emit [DeploymentInfoCall depID q] (s\<lparr>sched := w\<rparr>))"
  using assms by (auto simp add: DeploymentStatusRunning_def)

lemma status_loop_successful:
  assumes "cli (dpl s) \<noteq> None" "DeploymentsInfo b depID q (sched s) = (Inr (dep, meta), w)"
    "dep_Status dep = ''successful''"
  shows "status_loop (Suc n) b warn depID q s =
     Some (Inr (), emit [DeploymentInfoCall depID q] (s\<lparr>sched := w\<rparr>))"
  using assms by (auto simp add: DeploymentStatusRunning_def DeploymentStatusSuccessful_def)

lemma status_loop_failed:
  assumes "cli (dpl s) \<noteq> None" "DeploymentsInfo b depID q (sched s) = (Inr (dep, meta), w)"
    "dep_Status dep \<noteq> ''running''" "dep_Status dep \<noteq> ''successful''"
  shows "status_loop (Suc n) b warn depID q s =
     Some (Inl (Err (failed_message dep)),
           emit ([DeploymentInfoCall depID q, AllocationsCall depID]
                   @ (case fst (DeploymentsAllocations b depID w) of
                        Inl _ \<Rightarrow> [] | Inr al \<Rightarrow> show_errors warn al))
             (s\<lparr>sched := snd (DeploymentsAllocations b depID w)\<rparr>))"
  using assms
  by (auto simp add: DeploymentStatusRunning_def DeploymentStatusSuccessful_def
      split: prod.splits sum.splits)

lemma concat_map_show_event:
  "concat (map (show_event warn) es) =
     map (\<lambda>e. Printf (warn (DriverError e) @ warn (DownloadError e) @ warn (ValidationError e) @
                       warn (SetupError e) @ warn (VaultError e))) (filter has_error es)"
  by (induction es) (simp_all add: show_event_def)

lemma concat_map_concat:
  "concat (map f (concat xss)) = concat (map (\<lambda>xs. concat (map f xs)) xss)"
  by (induction xss) simp_all

lemma show_errors_filter:
  "show_errors warn al =
     map (\<lambda>e. Printf (warn (DriverError e) @ warn (DownloadError e) @ warn (ValidationError e) @
                       warn (SetupError e) @ warn (VaultError e)))
       (filter has_error (all_events al))"
proof -
  have "concat (map (show_event warn) (all_events al)) = show_errors warn al"
    by (simp add: show_errors_def all_events_def concat_map_concat o_def case_prod_unfold)
  then show ?thesis
    by (simp add: concat_map_show_event)
qed

lemma deployed_fields:
  "cli (dpl (deployed a al)) = Some (ClientConfig ''dc1'' ''10.0.0.1:4646'' False)"
  "jobDeploymentID (dpl (deployed a al)) = ''dep-1''"
  "sched (deployed a al) = quiet\<lparr>deps := a, allocs := al\<rparr>" "trace (deployed a al) = []"
  by (simp_all add: deployed_def ready_def NewDeployer_def)

lemma scripted_deployment:
  "DeploymentsInfo (scripted_backend f) ident q w =
     (case deps w of [] \<Rightarrow> (Inl (Err ''deployment not found''), w) | r # rs \<Rightarrow> (r, w\<lparr>deps := rs\<rparr>))"
  by (simp add: scripted_backend_def)

lemma scripted_allocations:
  "DeploymentsAllocations (scripted_backend f) ident w = (allocs w, w)"
  by (simp add: scripted_backend_def)

subsection \<open>The message of checkServiceConfig\<close>

text \<open>
  Claim C10. For every service name absent from the datacenter's config map,
  \<open>checkServiceConfig\<close> returns an error, and so do \<open>loadServiceConfig\<close> and \<open>Go\<close>
  (which stops at its first step, whatever the rounds allowed to the loops). The
  message formats the name, a string, with the verb \<open>%d\<close>: where the verb stood the
  message never has the name as it is, it has the artifact \<open>%!d(string=<name>)\<close>. So
  the message is \<open>service %!d(string=<name>) not found in datacenter config\<close>, it
  contains the artifact, and it is never the plain
  \<open>service <name> not found in datacenter config\<close>.
\<close>

theorem checkServiceConfig_misformat:
  assumes "Services (config (dpl s)) (service (dpl s)) = None"
  shows "checkServiceConfig (dpl s) =
           Inl (Err (''service '' @ (''%!d(string='' @ service (dpl s) @ '')'')
                       @ '' not found in datacenter config''))
         \<and> ''%!d(string='' @ service (dpl s) @ '')'' \<noteq> service (dpl s)
         \<and> ''service '' @ (''%!d(string='' @ service (dpl s) @ '')'') @ '' not found in datacenter config''
             \<noteq> ''service '' @ service (dpl s) @ '' not found in datacenter config''
         \<and> sublist (''%!d(string='' @ service (dpl s) @ '')'')
              (''service '' @ (''%!d(string='' @ service (dpl s) @ '')'')
                 @ '' not found in datacenter config'')
         \<and> (\<exists>e. fst (loadServiceConfig b s) = Inl e)
         \<and> Go n b warn s = Some (loadServiceConfig b s)"
proof -
  have c: "checkServiceConfig (dpl s) =
      Inl (Err (''service '' @ (''%!d(string='' @ service (dpl s) @ '')'')
                  @ '' not found in datacenter config''))"
    using assms by (simp add: checkServiceConfig_absent)
  have a: "''%!d(string='' @ service (dpl s) @ '')'' \<noteq> service (dpl s)"
  proof
    assume "''%!d(string='' @ service (dpl s) @ '')'' = service (dpl s)"
    then have "length (''%!d(string='' @ service (dpl s) @ '')'') = length (service (dpl s))"
      by (rule arg_cong)
    then show False by simp
  qed
  have m: "''service '' @ (''%!d(string='' @ service (dpl s) @ '')'') @ '' not found in datacenter config''
             \<noteq> ''service '' @ service (dpl s) @ '' not found in datacenter config''"
    using fmt_d_differs [of "service (dpl s)" "'' not found in datacenter config''"]
    by (simp add: fmt_d_string_def)
  have u: "sublist (''%!d(string='' @ service (dpl s) @ '')'')
      (''service '' @ (''%!d(string='' @ service (dpl s) @ '')'')
         @ '' not found in datacenter config'')"
    unfolding sublist_def by blast
  have l: "\<exists>e. fst (loadServiceConfig b s) = Inl e"
    by (simp add: loadServiceConfig_fst c split: sum.splits)
  then obtain e where "fst (loadServiceConfig b s) = Inl e" ..
  then have g: "Go n b warn s = Some (loadServiceConfig b s)"
    by (rule Go_stops_at_load)
  show ?thesis
    using c a m u l g by (intro conjI) assumption+
qed

text \<open>The sample service, looked up in a datacenter that has no services.\<close>

theorem checkServiceConfig_misformat_witness:
  "Services (config (dpl (start empty_dc quiet))) (service (dpl (start empty_dc quiet))) = None
   \<and> checkServiceConfig (dpl (start empty_dc quiet)) =
       Inl (Err ''service %!d(string=web) not found in datacenter config'')
   \<and> ''%!d(string=web)'' \<noteq> ''web''
   \<and> sublist ''%!d(string=web)'' ''service %!d(string=web) not found in datacenter config''
   \<and> fst (loadServiceConfig (scripted_backend service_files) (start empty_dc quiet)) =
       Inl (Err ''service %!d(string=web) not found in datacenter config'')
   \<and> Go 0 (scripted_backend service_files) bracket_warn (start empty_dc quiet) =
       Some (loadServiceConfig (scripted_backend service_files) (start empty_dc quiet))"
proof -
  have h: "Services (config (dpl (start empty_dc quiet))) (service (dpl (start empty_dc quiet))) = None"
    by (simp add: start_def NewDeployer_def empty_dc_def)
  have f: "fst (loadServiceConfig (scripted_backend service_files) (start empty_dc quiet)) =
       Inl (Err ''service %!d(string=web) not found in datacenter config'')"
    by (simp add: loadServiceConfig_fst service_path_def scripted_backend_def service_files_def
        checkServiceConfig_def fmt_d_string_def start_def NewDeployer_def empty_dc_def)
  from checkServiceConfig_misformat [OF h, of "scripted_backend service_files" 0 bracket_warn] h f
  show ?thesis by (simp add: start_def NewDeployer_def)
qed

subsection \<open>loadServiceConfig\<close>

text \<open>
  Claim C9. \<open>loadServiceConfig\<close> parses the job file under \<open>nomad/service\<close> first and
  the one under \<open>nomad/system\<close> only if the first attempt failed; it fails exactly when
  neither file parses or the service is absent from the datacenter's config map; and
  when it succeeds the deployer holds the parsed job, and nothing else in it changed.
\<close>

theorem loadServiceConfig_fallback:
  "service_path (dpl s) = root (dpl s) @ ''/nomad/service/'' @ service (dpl s) @ ''.nomad''
   \<and> system_path (dpl s) = root (dpl s) @ ''/nomad/system/'' @ service (dpl s) @ ''.nomad''
   \<and> trace (snd (loadServiceConfig b s)) =
       trace s @ (if isl (ParseFile b (service_path (dpl s)))
                  then [ParseFileCall (service_path (dpl s)), ParseFileCall (system_path (dpl s))]
                  else [ParseFileCall (service_path (dpl s))])
   \<and> (isl (fst (loadServiceConfig b s)) \<longleftrightarrow>
        (isl (ParseFile b (service_path (dpl s))) \<and> isl (ParseFile b (system_path (dpl s))))
        \<or> Services (config (dpl s)) (service (dpl s)) = None)
   \<and> (fst (loadServiceConfig b s) = Inr () \<longrightarrow>
        (\<exists>j. dpl (snd (loadServiceConfig b s)) = (dpl s)\<lparr>job := Some j\<rparr>
           \<and> (ParseFile b (service_path (dpl s)) = Inr j
              \<or> isl (ParseFile b (service_path (dpl s))) \<and> ParseFile b (system_path (dpl s)) = Inr j)))"
proof -
  have t: "trace (snd (loadServiceConfig b s)) =
       trace s @ (if isl (ParseFile b (service_path (dpl s)))
                  then [ParseFileCall (service_path (dpl s)), ParseFileCall (system_path (dpl s))]
                  else [ParseFileCall (service_path (dpl s))])"
    by (simp add: loadServiceConfig_def store_job_snd split: sum.splits)
  have f: "isl (fst (loadServiceConfig b s)) \<longleftrightarrow>
        (isl (ParseFile b (service_path (dpl s))) \<and> isl (ParseFile b (system_path (dpl s))))
        \<or> Services (config (dpl s)) (service (dpl s)) = None"
    by (auto simp add: loadServiceConfig_fst checkServiceConfig_def split: sum.splits option.splits)
  have j: "fst (loadServiceConfig b s) = Inr () \<longrightarrow>
        (\<exists>j. dpl (snd (loadServiceConfig b s)) = (dpl s)\<lparr>job := Some j\<rparr>
           \<and> (ParseFile b (service_path (dpl s)) = Inr j
              \<or> isl (ParseFile b (service_path (dpl s))) \<and> ParseFile b (system_path (dpl s)) = Inr j))"
    by (auto simp add: loadServiceConfig_def store_job_snd split: sum.splits)
  from t f j show ?thesis by (simp add: service_path_def system_path_def)
qed

text \<open>The sample service, with a job file under \<open>nomad/system\<close> only.\<close>

theorem loadServiceConfig_fallback_witness:
  "isl (ParseFile (scripted_backend system_files) (service_path (dpl (start dc1 quiet))))
   \<and> fst (loadServiceConfig (scripted_backend system_files) (start dc1 quiet)) = Inr ()
   \<and> trace (snd (loadServiceConfig (scripted_backend system_files) (start dc1 quiet))) =
       [ParseFileCall ''/srv/nomad/service/web.nomad'', ParseFileCall ''/srv/nomad/system/web.nomad'']
   \<and> job (dpl (snd (loadServiceConfig (scripted_backend system_files) (start dc1 quiet)))) = Some web_job"
proof -
  have p1: "ParseFile (scripted_backend system_files) (service_path (dpl (start dc1 quiet))) = no_file"
    by (simp add: scripted_backend_def system_files_def service_path_def start_def NewDeployer_def)
  have p2: "ParseFile (scripted_backend system_files) (system_path (dpl (start dc1 quiet))) = Inr web_job"
    by (simp add: scripted_backend_def system_files_def system_path_def start_def NewDeployer_def)
  have c: "Services (config (dpl (start dc1 quiet))) (service (dpl (start dc1 quiet))) \<noteq> None"
    by (simp add: start_def NewDeployer_def dc1_def)
  have r: "root (dpl (start dc1 quiet)) = ''/srv''" "service (dpl (start dc1 quiet)) = ''web''"
    by (simp_all add: start_def NewDeployer_def)
  from loadServiceConfig_fallback [of "start dc1 quiet" "scripted_backend system_files"] p1 p2 c r
  show ?thesis
    by (cases "fst (loadServiceConfig (scripted_backend system_files) (start dc1 quiet))")
       (auto simp add: no_file_def start_def)
qed

subsection \<open>Go\<close>

text \<open>
  Claim C2. \<open>Go\<close> runs the six steps \<open>loadServiceConfig\<close>, \<open>connect\<close>, \<open>validate\<close>,
  \<open>plan\<close>, \<open>register\<close>, \<open>status\<close> in this order, each on the state its predecessor
  left and only if every step before it succeeded; the first error is the result of
  \<open>Go\<close>, with the state that step left, so no later step ran; when all six succeed
  \<open>Go\<close> returns no error. (A loop that is still running when its rounds are used up
  makes \<open>Go\<close> not return.)
\<close>

theorem Go_fail_fast:
  "Go n b warn s =
     (case loadServiceConfig b s of
        (Inl e, s1) \<Rightarrow> Some (Inl e, s1)
      | (Inr _, s1) \<Rightarrow>
     (case connect b s1 of
        (Inl e, s2) \<Rightarrow> Some (Inl e, s2)
      | (Inr _, s2) \<Rightarrow>
     (case validate b s2 of
        (Inl e, s3) \<Rightarrow> Some (Inl e, s3)
      | (Inr _, s3) \<Rightarrow>
     (case plan b s3 of
        (Inl e, s4) \<Rightarrow> Some (Inl e, s4)
      | (Inr _, s4) \<Rightarrow>
     (case register n b s4 of
        None \<Rightarrow> None
      | Some (Inl e, s5) \<Rightarrow> Some (Inl e, s5)
      | Some (Inr _, s5) \<Rightarrow>
     (case status n b warn s5 of
        None \<Rightarrow> None
      | Some (Inl e, s6) \<Rightarrow> Some (Inl e, s6)
      | Some (Inr _, s6) \<Rightarrow> Some (Inr (), s6)))))))"
  by (simp add: Go_def returns_def split: prod.splits sum.splits option.splits)

subsection \<open>validate\<close>

text \<open>
  Claim C8. In \<open>validate\<close>, for a task group whose name equals the service name, a
  positive ServiceConfig count (3, say) becomes the group's count, and a count of 0
  leaves the group's count as the job file had it; groups of another name keep their
  count. The merged job is the one the deployer holds after \<open>validate\<close>.
\<close>

theorem validate_count:
  assumes "job (dpl s) = Some j0" "Services (config (dpl s)) (service (dpl s)) = Some sc"
    "no_nil (service (dpl s)) (TaskGroups j0)"
  shows "\<exists>j. job (dpl (snd (validate b s))) = Some j
           \<and> length (TaskGroups j) = length (TaskGroups j0)
           \<and> (\<forall>i < length (TaskGroups j0).
                tg_Name (TaskGroups j ! i) = tg_Name (TaskGroups j0 ! i)
                \<and> tg_Count (TaskGroups j ! i) =
                    (if tg_Name (TaskGroups j0 ! i) = Some (service (dpl s)) \<and> 0 < Count sc
                     then Some (Count sc) else tg_Count (TaskGroups j0 ! i)))"
proof -
  have "length (TaskGroups (merged_job (dpl s) j0 sc)) = length (TaskGroups j0)"
    by (simp add: merged_job_def)
  moreover have "\<forall>i < length (TaskGroups j0).
      tg_Name (TaskGroups (merged_job (dpl s) j0 sc) ! i) = tg_Name (TaskGroups j0 ! i)
      \<and> tg_Count (TaskGroups (merged_job (dpl s) j0 sc) ! i) =
          (if tg_Name (TaskGroups j0 ! i) = Some (service (dpl s)) \<and> 0 < Count sc
           then Some (Count sc) else tg_Count (TaskGroups j0 ! i))"
    by (simp add: merged_job_def with_overrides_def)
  ultimately show ?thesis
    using validate_closed(1) [OF assms, of b] by blast
qed

text \<open>The sample job under a ServiceConfig with count 3, and under one with count 0.\<close>

theorem validate_count_witness:
  "job (dpl (ready web_job dc1 quiet)) = Some web_job
   \<and> Services (config (dpl (ready web_job dc1 quiet))) (service (dpl (ready web_job dc1 quiet))) = Some web_config
   \<and> no_nil (service (dpl (ready web_job dc1 quiet))) (TaskGroups web_job)
   \<and> Count web_config = 3
   \<and> map tg_Count (TaskGroups web_job) = [Some 1]
   \<and> (\<exists>j. job (dpl (snd (validate (scripted_backend service_files) (ready web_job dc1 quiet)))) = Some j
          \<and> map tg_Count (TaskGroups j) = [Some 3])
   \<and> (\<exists>j. job (dpl (snd (validate (scripted_backend service_files) (ready web_job dc1_defaults quiet)))) = Some j
          \<and> map tg_Count (TaskGroups j) = [Some 1])"
proof -
  have a: "job (dpl (ready web_job dc1 quiet)) = Some web_job"
    by (simp add: ready_fields)
  have b: "Services (config (dpl (ready web_job dc1 quiet))) (service (dpl (ready web_job dc1 quiet))) = Some web_config"
    by (simp add: ready_fields dc1_def)
  have c: "no_nil (service (dpl (ready web_job dc1 quiet))) (TaskGroups web_job)"
    by (simp add: ready_fields no_nil_web)
  have a0: "job (dpl (ready web_job dc1_defaults quiet)) = Some web_job"
    by (simp add: ready_fields)
  have b0: "Services (config (dpl (ready web_job dc1_defaults quiet))) (service (dpl (ready web_job dc1_defaults quiet)))
      = Some (web_config\<lparr>Count := 0, HostGroup := [], Node := [], DcRegion := []\<rparr>)"
    by (simp add: ready_fields dc1_defaults_def)
  have c0: "no_nil (service (dpl (ready web_job dc1_defaults quiet))) (TaskGroups web_job)"
    by (simp add: ready_fields no_nil_web)
  have n: "Count web_config = 3" "map tg_Count (TaskGroups web_job) = [Some 1]"
    "length (TaskGroups web_job) = 1" "tg_Name (TaskGroups web_job ! 0) = Some ''web''"
    "tg_Count (TaskGroups web_job ! 0) = Some 1"
    by (simp_all add: web_config_def web_job_def web_group_def)
  obtain j where j: "job (dpl (snd (validate (scripted_backend service_files) (ready web_job dc1 quiet)))) = Some j"
    "length (TaskGroups j) = 1" "tg_Count (TaskGroups j ! 0) = Some 3"
    using validate_count [OF a b c, of "scripted_backend service_files"] n
    by (auto simp add: ready_fields)
  obtain j' where j': "job (dpl (snd (validate (scripted_backend service_files) (ready web_job dc1_defaults quiet)))) = Some j'"
    "length (TaskGroups j') = 1" "tg_Count (TaskGroups j' ! 0) = Some 1"
    using validate_count [OF a0 b0 c0, of "scripted_backend service_files"] n
    by (auto simp add: ready_fields)
  have m: "map tg_Count (TaskGroups j) = [Some 3]"
    using j(2,3) by (cases "TaskGroups j") simp_all
  have m': "map tg_Count (TaskGroups j') = [Some 1]"
    using j'(2,3) by (cases "TaskGroups j'") simp_all
  from a b c n(1,2) j(1) m j'(1) m' show ?thesis by simp
qed


text \<open>
  Claim C4, as amended. In \<open>validate\<close>, each of the ServiceConfig fields \<open>dcRegion\<close>,
  \<open>hostGroup\<close> and \<open>node\<close>, when non-empty, adds exactly one equality constraint against
  its metadata key, and when empty adds none; the constraints are appended to the job's
  own list, whatever the names of the task groups, and no task group's constraints
  change.
\<close>

theorem validate_constraints:
  assumes "job (dpl s) = Some j0" "Services (config (dpl s)) (service (dpl s)) = Some sc"
    "no_nil (service (dpl s)) (TaskGroups j0)"
  shows "\<exists>j. job (dpl (snd (validate b s))) = Some j
           \<and> Constraints j = Constraints j0
               @ (if DcRegion sc \<noteq> [] then [\<lparr>LTarget = ''${meta.dc_region}'', RTarget = DcRegion sc, Operand = ''=''\<rparr>] else [])
               @ (if HostGroup sc \<noteq> [] then [\<lparr>LTarget = ''${meta.hostgroup}'', RTarget = HostGroup sc, Operand = ''=''\<rparr>] else [])
               @ (if Node sc \<noteq> [] then [\<lparr>LTarget = ''${meta.node}'', RTarget = Node sc, Operand = ''=''\<rparr>] else [])
           \<and> map tg_Constraints (TaskGroups j) = map tg_Constraints (TaskGroups j0)"
proof -
  have "map tg_Constraints (TaskGroups (merged_job (dpl s) j0 sc)) = map tg_Constraints (TaskGroups j0)"
    by (simp add: merged_job_def with_overrides_def)
  moreover have "Constraints (merged_job (dpl s) j0 sc) = Constraints j0
      @ (if DcRegion sc \<noteq> [] then [\<lparr>LTarget = ''${meta.dc_region}'', RTarget = DcRegion sc, Operand = ''=''\<rparr>] else [])
      @ (if HostGroup sc \<noteq> [] then [\<lparr>LTarget = ''${meta.hostgroup}'', RTarget = HostGroup sc, Operand = ''=''\<rparr>] else [])
      @ (if Node sc \<noteq> [] then [\<lparr>LTarget = ''${meta.node}'', RTarget = Node sc, Operand = ''=''\<rparr>] else [])"
    by (simp add: merged_job_def)
  ultimately show ?thesis
    using validate_closed(1) [OF assms, of b] by blast
qed

text \<open>A job whose only group is not named as the service: all three fields set, and none.\<close>

theorem validate_constraints_witness:
  "job (dpl (ready batch_job dc1 quiet)) = Some batch_job
   \<and> Services (config (dpl (ready batch_job dc1 quiet))) (service (dpl (ready batch_job dc1 quiet))) = Some web_config
   \<and> no_nil (service (dpl (ready batch_job dc1 quiet))) (TaskGroups batch_job)
   \<and> (\<exists>j. job (dpl (snd (validate (scripted_backend service_files) (ready batch_job dc1 quiet)))) = Some j
          \<and> Constraints j =
              [\<lparr>LTarget = ''${meta.dc_region}'', RTarget = ''r1'', Operand = ''=''\<rparr>,
               \<lparr>LTarget = ''${meta.hostgroup}'', RTarget = ''app'', Operand = ''=''\<rparr>,
               \<lparr>LTarget = ''${meta.node}'', RTarget = ''app1'', Operand = ''=''\<rparr>]
          \<and> map tg_Constraints (TaskGroups j) = [[]])
   \<and> (\<exists>j. job (dpl (snd (validate (scripted_backend service_files) (ready batch_job dc1_defaults quiet)))) = Some j
          \<and> Constraints j = [])"
proof -
  have a: "job (dpl (ready batch_job dc1 quiet)) = Some batch_job"
    by (simp add: ready_fields)
  have b: "Services (config (dpl (ready batch_job dc1 quiet))) (service (dpl (ready batch_job dc1 quiet))) = Some web_config"
    by (simp add: ready_fields dc1_def)
  have c: "no_nil (service (dpl (ready batch_job dc1 quiet))) (TaskGroups batch_job)"
    by (simp add: ready_fields no_nil_batch)
  have a0: "job (dpl (ready batch_job dc1_defaults quiet)) = Some batch_job"
    by (simp add: ready_fields)
  have b0: "Services (config (dpl (ready batch_job dc1_defaults quiet))) (service (dpl (ready batch_job dc1_defaults quiet)))
      = Some (web_config\<lparr>Count := 0, HostGroup := [], Node := [], DcRegion := []\<rparr>)"
    by (simp add: ready_fields dc1_defaults_def)
  have c0: "no_nil (service (dpl (ready batch_job dc1_defaults quiet))) (TaskGroups batch_job)"
    by (simp add: ready_fields no_nil_batch)
  have n: "Constraints batch_job = []" "map tg_Constraints (TaskGroups batch_job) = [[]]"
    "DcRegion web_config = ''r1''" "HostGroup web_config = ''app''" "Node web_config = ''app1''"
    by (simp_all add: web_config_def batch_job_def batch_group_def)
  from validate_constraints [OF a b c, of "scripted_backend service_files"]
    validate_constraints [OF a0 b0 c0, of "scripted_backend service_files"] a b c n
  show ?thesis by auto
qed

text \<open>
  Claim C4 as stated applies the constraints only for the task group named as the
  service. The job here has no such group, and gets all three.
\<close>

theorem validate_constraints_counterexample:
  "service (dpl (ready batch_job dc1 quiet)) = ''web''
   \<and> map tg_Name (TaskGroups batch_job) = [Some ''batch'']
   \<and> Constraints batch_job = []
   \<and> fst (validate (scripted_backend service_files) (ready batch_job dc1 quiet)) = Inr ()
   \<and> map_option Constraints (job (dpl (snd (validate (scripted_backend service_files) (ready batch_job dc1 quiet)))))
       = Some [\<lparr>LTarget = ''${meta.dc_region}'', RTarget = ''r1'', Operand = ''=''\<rparr>,
               \<lparr>LTarget = ''${meta.hostgroup}'', RTarget = ''app'', Operand = ''=''\<rparr>,
               \<lparr>LTarget = ''${meta.node}'', RTarget = ''app1'', Operand = ''=''\<rparr>]"
  by (simp add: validate_def merge_job_def constrain_job_def Constrain_def NewConstraint_def
      AddDatacenter_def ready_fields dc1_def web_config_def batch_job_def batch_group_def
      scripted_backend_def emit_def Let_def)

text \<open>
  Claim C5, as amended. \<open>validate\<close> writes the deployment image into the config of
  every task named as the service inside a task group named as the service, and, when
  the job has such a task, into the ServiceConfig's own image field, whatever was
  configured there; the ServiceConfig stored for the service then has the deployed
  image. When the job has no such task, the ServiceConfig and the task configs keep
  their images.
\<close>

theorem validate_image:
  assumes "job (dpl s) = Some j0" "Services (config (dpl s)) (service (dpl s)) = Some sc"
    "no_nil (service (dpl s)) (TaskGroups j0)"
  shows "Services (config (dpl (snd (validate b s)))) (service (dpl s)) =
           Some (if has_service_task (service (dpl s)) (TaskGroups j0)
                 then sc\<lparr>Image := image (dpl s)\<rparr> else sc)
         \<and> (\<exists>j. job (dpl (snd (validate b s))) = Some j
               \<and> map tg_Tasks (TaskGroups j) =
                   map (\<lambda>tg. if tg_Name tg = Some (service (dpl s))
                              then map (with_image (service (dpl s)) (image (dpl s))) (tg_Tasks tg)
                              else tg_Tasks tg) (TaskGroups j0))
         \<and> (\<forall>ta c. ta_Name ta = service (dpl s) \<and> ta_Config ta = Some c \<longrightarrow>
               (\<exists>c'. ta_Config (with_image (service (dpl s)) (image (dpl s)) ta) = Some c'
                    \<and> map_of c' ''image'' = Some (VStr (image (dpl s)))))
         \<and> (\<forall>ta. ta_Name ta \<noteq> service (dpl s) \<longrightarrow>
               with_image (service (dpl s)) (image (dpl s)) ta = ta)"
proof -
  have t: "map tg_Tasks (TaskGroups (merged_job (dpl s) j0 sc)) =
      map (\<lambda>tg. if tg_Name tg = Some (service (dpl s))
                 then map (with_image (service (dpl s)) (image (dpl s))) (tg_Tasks tg)
                 else tg_Tasks tg) (TaskGroups j0)"
    by (simp add: merged_job_def with_overrides_def)
  have w: "\<forall>ta c. ta_Name ta = service (dpl s) \<and> ta_Config ta = Some c \<longrightarrow>
      (\<exists>c'. ta_Config (with_image (service (dpl s)) (image (dpl s)) ta) = Some c'
           \<and> map_of c' ''image'' = Some (VStr (image (dpl s))))"
    by (simp add: with_image_def update_conv')
  have u: "\<forall>ta. ta_Name ta \<noteq> service (dpl s) \<longrightarrow>
      with_image (service (dpl s)) (image (dpl s)) ta = ta"
    by (simp add: with_image_def)
  have i: "Services (config (dpl (snd (validate b s)))) (service (dpl s)) =
      Some (if has_service_task (service (dpl s)) (TaskGroups j0)
            then sc\<lparr>Image := image (dpl s)\<rparr> else sc)"
    by (simp add: validate_closed(2) [OF assms, of b])
  from i t w u validate_closed(1) [OF assms, of b] show ?thesis by blast
qed

text \<open>The sample job: its task is named as the service.\<close>

theorem validate_image_witness:
  "job (dpl (ready web_job dc1 quiet)) = Some web_job
   \<and> Services (config (dpl (ready web_job dc1 quiet))) (service (dpl (ready web_job dc1 quiet))) = Some web_config
   \<and> no_nil (service (dpl (ready web_job dc1 quiet))) (TaskGroups web_job)
   \<and> Image web_config = ''web:static''
   \<and> map_option Image (Services (config (dpl (snd (validate (scripted_backend service_files) (ready web_job dc1 quiet))))) ''web'')
       = Some ''web:42''
   \<and> (\<exists>j. job (dpl (snd (validate (scripted_backend service_files) (ready web_job dc1 quiet)))) = Some j
          \<and> map tg_Tasks (TaskGroups j) = [[\<lparr>ta_Name = ''web'', ta_Config = Some [(''image'', VStr ''web:42'')]\<rparr>]])"
proof -
  have a: "job (dpl (ready web_job dc1 quiet)) = Some web_job"
    by (simp add: ready_fields)
  have b: "Services (config (dpl (ready web_job dc1 quiet))) (service (dpl (ready web_job dc1 quiet))) = Some web_config"
    by (simp add: ready_fields dc1_def)
  have c: "no_nil (service (dpl (ready web_job dc1 quiet))) (TaskGroups web_job)"
    by (simp add: ready_fields no_nil_web)
  have h: "has_service_task ''web'' (TaskGroups web_job)"
    by (simp add: has_service_task_def has_task_def web_job_def web_group_def web_task_def)
  have n: "Image web_config = ''web:static''"
    "map (\<lambda>tg. if tg_Name tg = Some ''web'' then map (with_image ''web'' ''web:42'') (tg_Tasks tg) else tg_Tasks tg)
       (TaskGroups web_job) = [[\<lparr>ta_Name = ''web'', ta_Config = Some [(''image'', VStr ''web:42'')]\<rparr>]]"
    by (simp_all add: web_config_def web_job_def web_group_def web_task_def with_image_def)
  from validate_image [OF a b c, of "scripted_backend service_files", unfolded ready_fields] a b c h n
  show ?thesis by (auto simp add: ready_fields)
qed

text \<open>
  Claim C5 as stated has the image overwritten always. The group here is named as the
  service, its only task is not: \<open>validate\<close> succeeds and the configured image stays.
\<close>

theorem validate_image_counterexample:
  "image (dpl (ready sidecar_job dc1 quiet)) = ''web:42''
   \<and> fst (validate (scripted_backend service_files) (ready sidecar_job dc1 quiet)) = Inr ()
   \<and> map_option Image (Services (config (dpl (snd (validate (scripted_backend service_files) (ready sidecar_job dc1 quiet))))) ''web'')
       = Some ''web:static''
   \<and> map_option TaskGroups (job (dpl (snd (validate (scripted_backend service_files) (ready sidecar_job dc1 quiet)))))
       = Some [\<lparr>tg_Name = Some ''web'', tg_Count = Some 3, tg_Constraints = [],
                tg_Tasks = [\<lparr>ta_Name = ''nginx'', ta_Config = Some [(''image'', VStr ''nginx:1'')]\<rparr>]\<rparr>]"
  by (simp add: validate_def merge_job_def constrain_job_def Constrain_def NewConstraint_def
      AddDatacenter_def ready_fields dc1_def web_config_def sidecar_job_def nginx_task_def
      scripted_backend_def emit_def Let_def)

subsection \<open>plan and register\<close>

text \<open>
  Claim C1. After a successful \<open>plan\<close>, the deployer's modify index is the one the plan
  answered, and \<open>register\<close>, run on the state \<open>plan\<close> left (as \<open>Go\<close> does), sends the job
  with exactly that index as the enforced index, in one request. When the scheduler
  refuses the request, \<open>register\<close> returns the scheduler's error and does nothing more;
  so with a scheduler that refuses every index other than its current one, a current
  index that differs from the planned one makes \<open>register\<close> fail with the scheduler's
  error.
\<close>

theorem register_enforces_plan_index:
  assumes "plan b s = (Inr (), s1)"
  shows "(\<exists>jp w. JobsPlan b (job (dpl s)) False (sched s) = (Inr jp, w)
            \<and> jobModifyIndex (dpl s1) = JobModifyIndex jp
            \<and> job (dpl s1) = job (dpl s) \<and> sched s1 = w
            \<and> trace s1 = trace s @ [PlanCall (job (dpl s)) False])
         \<and> (\<forall>err w. JobsEnforceRegister b (job (dpl s1)) (jobModifyIndex (dpl s1)) (sched s1) = (Inl err, w) \<longrightarrow>
               register n b s1 =
                 Some (Inl err, emit [EnforceRegisterCall (job (dpl s1)) (jobModifyIndex (dpl s1))]
                                  (s1\<lparr>sched := w\<rparr>)))
         \<and> (\<forall>jr w. JobsEnforceRegister b (job (dpl s1)) (jobModifyIndex (dpl s1)) (sched s1) = (Inr jr, w) \<longrightarrow>
               register n b s1 =
                 getDeploymentID n b
                   (emit [EnforceRegisterCall (job (dpl s1)) (jobModifyIndex (dpl s1))]
                      (s1\<lparr>dpl := (dpl s1)\<lparr>jobEvalID := EvalID jr\<rparr>, sched := w\<rparr>)))
         \<and> ((\<forall>j i w. i \<noteq> current w \<longrightarrow> isl (fst (JobsEnforceRegister b j i w)))
               \<and> current (sched s1) \<noteq> jobModifyIndex (dpl s1) \<longrightarrow>
             (\<exists>err w. JobsEnforceRegister b (job (dpl s1)) (jobModifyIndex (dpl s1)) (sched s1) = (Inl err, w)
                \<and> register n b s1 =
                    Some (Inl err, emit [EnforceRegisterCall (job (dpl s1)) (jobModifyIndex (dpl s1))]
                                     (s1\<lparr>sched := w\<rparr>))))"
proof -
  from plan_succeeded(2) [OF assms] obtain jp w where
    p: "JobsPlan b (job (dpl s)) False (sched s) = (Inr jp, w)"
    and s1: "s1 = emit [PlanCall (job (dpl s)) False]
                    (s\<lparr>dpl := (dpl s)\<lparr>jobModifyIndex := JobModifyIndex jp\<rparr>, sched := w\<rparr>)"
    by blast
  have c: "cli (dpl s1) \<noteq> None"
    using plan_succeeded(1) [OF assms] s1 by simp
  have a: "\<exists>jp w. JobsPlan b (job (dpl s)) False (sched s) = (Inr jp, w)
            \<and> jobModifyIndex (dpl s1) = JobModifyIndex jp
            \<and> job (dpl s1) = job (dpl s) \<and> sched s1 = w
            \<and> trace s1 = trace s @ [PlanCall (job (dpl s)) False]"
    using p s1 by simp
  have r: "\<forall>err w. JobsEnforceRegister b (job (dpl s1)) (jobModifyIndex (dpl s1)) (sched s1) = (Inl err, w) \<longrightarrow>
      register n b s1 =
        Some (Inl err, emit [EnforceRegisterCall (job (dpl s1)) (jobModifyIndex (dpl s1))]
                         (s1\<lparr>sched := w\<rparr>))"
    using register_refused [OF c] by blast
  have e: "\<forall>jr w. JobsEnforceRegister b (job (dpl s1)) (jobModifyIndex (dpl s1)) (sched s1) = (Inr jr, w) \<longrightarrow>
      register n b s1 =
        getDeploymentID n b
          (emit [EnforceRegisterCall (job (dpl s1)) (jobModifyIndex (dpl s1))]
             (s1\<lparr>dpl := (dpl s1)\<lparr>jobEvalID := EvalID jr\<rparr>, sched := w\<rparr>))"
    using register_enters [OF c] by blast
  have m: "(\<forall>j i w. i \<noteq> current w \<longrightarrow> isl (fst (JobsEnforceRegister b j i w)))
        \<and> current (sched s1) \<noteq> jobModifyIndex (dpl s1) \<longrightarrow>
      (\<exists>err w. JobsEnforceRegister b (job (dpl s1)) (jobModifyIndex (dpl s1)) (sched s1) = (Inl err, w)
         \<and> register n b s1 =
             Some (Inl err, emit [EnforceRegisterCall (job (dpl s1)) (jobModifyIndex (dpl s1))]
                              (s1\<lparr>sched := w\<rparr>)))"
  proof
    assume h: "(\<forall>j i w. i \<noteq> current w \<longrightarrow> isl (fst (JobsEnforceRegister b j i w)))
        \<and> current (sched s1) \<noteq> jobModifyIndex (dpl s1)"
    then have "isl (fst (JobsEnforceRegister b (job (dpl s1)) (jobModifyIndex (dpl s1)) (sched s1)))"
      by metis
    then obtain err w where
      "JobsEnforceRegister b (job (dpl s1)) (jobModifyIndex (dpl s1)) (sched s1) = (Inl err, w)"
      by (cases "JobsEnforceRegister b (job (dpl s1)) (jobModifyIndex (dpl s1)) (sched s1)")
         (auto simp add: isl_def)
    then show "\<exists>err w. JobsEnforceRegister b (job (dpl s1)) (jobModifyIndex (dpl s1)) (sched s1) = (Inl err, w)
         \<and> register n b s1 =
             Some (Inl err, emit [EnforceRegisterCall (job (dpl s1)) (jobModifyIndex (dpl s1))]
                              (s1\<lparr>sched := w\<rparr>))"
      using r by blast
  qed
  show ?thesis
    using a r e m by (intro conjI) assumption+
qed


text \<open>
  A scheduler on which another registration lands right after the plan: the plan
  answered 7, the current index is 8.
\<close>

theorem register_enforces_plan_index_witness:
  "fst (plan (contended_backend service_files) (ready web_job dc1 quiet)) = Inr ()
   \<and> jobModifyIndex (dpl (snd (plan (contended_backend service_files) (ready web_job dc1 quiet)))) = 7
   \<and> cur_index (sched (snd (plan (contended_backend service_files) (ready web_job dc1 quiet)))) = 8
   \<and> map_option fst (register 5 (contended_backend service_files)
        (snd (plan (contended_backend service_files) (ready web_job dc1 quiet))))
       = Some (Inl (Err ''job modify index conflict''))
   \<and> map_option (\<lambda>out. trace (snd out)) (register 5 (contended_backend service_files)
        (snd (plan (contended_backend service_files) (ready web_job dc1 quiet))))
       = Some [PlanCall (Some web_job) False, EnforceRegisterCall (Some web_job) 7]"
proof -
  let ?B = "contended_backend service_files"
  let ?s1 = "emit [PlanCall (Some web_job) False]
        ((ready web_job dc1 quiet)
           \<lparr>dpl := (dpl (ready web_job dc1 quiet))\<lparr>jobModifyIndex := 7\<rparr>,
            sched := quiet\<lparr>cur_index := 8\<rparr>\<rparr>)"
  have p: "plan ?B (ready web_job dc1 quiet) = (Inr (), ?s1)"
    by (rule ready_plan_contended)
  have k: "\<forall>j i w. i \<noteq> cur_index w \<longrightarrow> isl (fst (JobsEnforceRegister ?B j i w))"
    by (simp add: contended_backend_def scripted_backend_def)
  have d: "cur_index (sched ?s1) \<noteq> jobModifyIndex (dpl ?s1)"
    by simp
  have f: "jobModifyIndex (dpl ?s1) = 7" "cur_index (sched ?s1) = 8" "job (dpl ?s1) = Some web_job"
    "trace ?s1 = [PlanCall (Some web_job) False]"
    by (simp_all add: ready_fields)
  have j: "JobsEnforceRegister ?B (Some web_job) 7 (sched ?s1) = (Inl (Err ''job modify index conflict''), sched ?s1)"
    by (simp add: contended_backend_def scripted_backend_def)
  from register_enforces_plan_index [OF p, of 5 cur_index] k d
  obtain err w where
    "JobsEnforceRegister ?B (job (dpl ?s1)) (jobModifyIndex (dpl ?s1)) (sched ?s1) = (Inl err, w)"
    "register 5 ?B ?s1 =
       Some (Inl err, emit [EnforceRegisterCall (job (dpl ?s1)) (jobModifyIndex (dpl ?s1))] (?s1\<lparr>sched := w\<rparr>))"
    by blast
  with j f have "register 5 ?B ?s1 =
       Some (Inl (Err ''job modify index conflict''),
             emit [EnforceRegisterCall (Some web_job) 7] (?s1\<lparr>sched := sched ?s1\<rparr>))"
    by simp
  then show ?thesis
    unfolding p using f by simp
qed

subsection \<open>The wait for the deployment identifier\<close>

text \<open>
  Claim C6. The loop of \<open>getDeploymentID\<close>, entered by \<open>register\<close> with a connected
  client, returns exactly when some round's query ends the wait: the query fails (the
  error is returned, and is \<open>register\<close>'s result), or the evaluation carries a
  deployment identifier (it is stored), or the evaluation is complete and its job is
  not of the service type (nothing is stored). Every round before that one asked,
  then paused one second. There is no bound of its own: when the wait ends first in
  round \<open>k\<close>, any allowance above \<open>k\<close> rounds returns that round's result, whatever \<open>k\<close>
  is, and when no round ends the wait the loop does not return under any allowance.
\<close>

theorem getDeploymentID_stops:
  assumes "cli (dpl s) \<noteq> None"
  shows "(getDeploymentID n b s = Some out \<longleftrightarrow>
            (\<exists>k<n. first_stop b s k \<and> out = last_round b ((retry b ^^ k) s)))
         \<and> ((\<forall>k. \<not> eval_stops (answer b ((retry b ^^ k) s))) \<longrightarrow>
               (\<forall>m. getDeploymentID m b s = None))
         \<and> (first_stop b s k \<longrightarrow>
               (\<forall>m. getDeploymentID (Suc k + m) b s = Some (last_round b ((retry b ^^ k) s))))
         \<and> fst (last_round b ((retry b ^^ k) s)) =
             (case answer b ((retry b ^^ k) s) of Inl err \<Rightarrow> Inl err | Inr _ \<Rightarrow> Inr ())
         \<and> jobDeploymentID (dpl (snd (last_round b ((retry b ^^ k) s)))) =
             (case answer b ((retry b ^^ k) s) of
                Inl _ \<Rightarrow> jobDeploymentID (dpl s)
              | Inr ev \<Rightarrow> if ev_DeploymentID ev \<noteq> [] then ev_DeploymentID ev
                          else jobDeploymentID (dpl s))
         \<and> trace (snd (last_round b ((retry b ^^ k) s))) =
             trace s @ concat (replicate k [EvalInfoCall (jobEvalID (dpl s)), Sleep Second])
               @ [EvalInfoCall (jobEvalID (dpl s))]
         \<and> (\<forall>jr w. JobsEnforceRegister b (job (dpl s)) (jobModifyIndex (dpl s)) (sched s) = (Inr jr, w) \<longrightarrow>
               register n b s =
                 getDeploymentID n b
                   (emit [EnforceRegisterCall (job (dpl s)) (jobModifyIndex (dpl s))]
                      (s\<lparr>dpl := (dpl s)\<lparr>jobEvalID := EvalID jr\<rparr>, sched := w\<rparr>)))"
proof -
  have r: "getDeploymentID n b s = Some out \<longleftrightarrow>
      (\<exists>k<n. first_stop b s k \<and> out = last_round b ((retry b ^^ k) s))"
    using assms by (rule getDeploymentID_returns)
  have never: "(\<forall>k. \<not> eval_stops (answer b ((retry b ^^ k) s))) \<longrightarrow>
      (\<forall>m. getDeploymentID m b s = None)"
  proof (intro impI allI)
    fix m
    assume a: "\<forall>k. \<not> eval_stops (answer b ((retry b ^^ k) s))"
    show "getDeploymentID m b s = None"
    proof (cases "getDeploymentID m b s")
      case None
      then show ?thesis .
    next
      case (Some o1)
      then obtain k where "first_stop b s k"
        using getDeploymentID_returns [OF assms, of m b o1] by blast
      with a show ?thesis by (simp add: first_stop_def)
    qed
  qed
  have enough: "first_stop b s k \<longrightarrow>
      (\<forall>m. getDeploymentID (Suc k + m) b s = Some (last_round b ((retry b ^^ k) s)))"
  proof (intro impI allI)
    fix m
    assume "first_stop b s k"
    then have "\<exists>i<Suc k + m. first_stop b s i \<and>
        last_round b ((retry b ^^ k) s) = last_round b ((retry b ^^ i) s)"
      by (intro exI [of _ k]) simp
    then show "getDeploymentID (Suc k + m) b s = Some (last_round b ((retry b ^^ k) s))"
      using getDeploymentID_returns [OF assms, of "Suc k + m" b "last_round b ((retry b ^^ k) s)"]
      by blast
  qed
  have reg: "\<forall>jr w. JobsEnforceRegister b (job (dpl s)) (jobModifyIndex (dpl s)) (sched s) = (Inr jr, w) \<longrightarrow>
      register n b s =
        getDeploymentID n b
          (emit [EnforceRegisterCall (job (dpl s)) (jobModifyIndex (dpl s))]
             (s\<lparr>dpl := (dpl s)\<lparr>jobEvalID := EvalID jr\<rparr>, sched := w\<rparr>))"
    using register_enters [OF assms] by blast
  have d1: "fst (last_round b ((retry b ^^ k) s)) =
      (case answer b ((retry b ^^ k) s) of Inl err \<Rightarrow> Inl err | Inr _ \<Rightarrow> Inr ())"
    by (rule last_round_result)
  have d2: "jobDeploymentID (dpl (snd (last_round b ((retry b ^^ k) s)))) =
      (case answer b ((retry b ^^ k) s) of
         Inl _ \<Rightarrow> jobDeploymentID (dpl s)
       | Inr ev \<Rightarrow> if ev_DeploymentID ev \<noteq> [] then ev_DeploymentID ev
                   else jobDeploymentID (dpl s))"
    by (simp add: last_round_deployment split: sum.splits)
  have d3: "trace (snd (last_round b ((retry b ^^ k) s))) =
      trace s @ concat (replicate k [EvalInfoCall (jobEvalID (dpl s)), Sleep Second])
        @ [EvalInfoCall (jobEvalID (dpl s))]"
    by (rule last_round_trace)
  show ?thesis
    using r never enough d1 d2 d3 reg by (intro conjI) assumption+
qed

text \<open>
  A scheduler whose evaluation stays pending for ever, and one that reports the
  deployment at the third query.
\<close>

theorem getDeploymentID_stops_witness:
  "cli (dpl (polling [])) \<noteq> None
   \<and> (\<forall>m. getDeploymentID m (scripted_backend service_files) (polling []) = None)
   \<and> map_option fst (getDeploymentID 3 (scripted_backend service_files)
        (polling [Inr pending_eval, Inr pending_eval, Inr deployed_eval])) = Some (Inr ())
   \<and> map_option (\<lambda>out. jobDeploymentID (dpl (snd out))) (getDeploymentID 3 (scripted_backend service_files)
        (polling [Inr pending_eval, Inr pending_eval, Inr deployed_eval])) = Some ''dep-1''
   \<and> map_option (\<lambda>out. trace (snd out)) (getDeploymentID 3 (scripted_backend service_files)
        (polling [Inr pending_eval, Inr pending_eval, Inr deployed_eval])) =
       Some [EvalInfoCall ''eval-1'', Sleep 1000000000, EvalInfoCall ''eval-1'', Sleep 1000000000,
             EvalInfoCall ''eval-1'']"
proof -
  let ?B = "scripted_backend service_files"
  let ?S = "polling [Inr pending_eval, Inr pending_eval, Inr deployed_eval]"
  have c0: "cli (dpl (polling [])) \<noteq> None"
    by (simp add: polling_fields)
  have c: "cli (dpl ?S) \<noteq> None"
    by (simp add: polling_fields)
  have stuck: "\<forall>k. \<not> eval_stops (answer ?B ((retry ?B ^^ k) (polling [])))"
    by (simp add: scripted_answer scripted_retries polling_fields pending_goes_on)
  have a: "answer ?B ((retry ?B ^^ k) ?S) =
      (case drop k [Inr pending_eval, Inr pending_eval, Inr deployed_eval] of
         [] \<Rightarrow> Inr pending_eval | r # rs \<Rightarrow> r)" for k
    by (simp add: scripted_answer scripted_retries polling_fields)
  have a2: "answer ?B ((retry ?B ^^ 2) ?S) = Inr deployed_eval"
    by (simp add: a)
  have "\<forall>i<2. \<not> eval_stops (answer ?B ((retry ?B ^^ i) ?S))"
    by (simp add: a less_Suc_eq numeral_2_eq_2 pending_goes_on)
  moreover have "eval_stops (answer ?B ((retry ?B ^^ 2) ?S))"
    unfolding a2 by (simp add: eval_stops_def deployed_eval_def)
  ultimately have f: "first_stop ?B ?S 2"
    by (simp add: first_stop_def)
  note t0 = getDeploymentID_stops [OF c0, of 0 ?B "(Inr (), polling [])" 0]
  note t = getDeploymentID_stops [OF c, of 3 ?B "(Inr (), polling [])" 2]
  have n: "\<forall>m. getDeploymentID m ?B (polling []) = None"
    using t0 stuck by blast
  have g: "getDeploymentID 3 ?B ?S = Some (last_round ?B ((retry ?B ^^ 2) ?S))"
    using t f by (auto dest: spec [of _ 0])
  have r: "fst (last_round ?B ((retry ?B ^^ 2) ?S)) = Inr ()"
    "jobDeploymentID (dpl (snd (last_round ?B ((retry ?B ^^ 2) ?S)))) = ''dep-1''"
    "trace (snd (last_round ?B ((retry ?B ^^ 2) ?S))) =
       [EvalInfoCall ''eval-1'', Sleep 1000000000, EvalInfoCall ''eval-1'', Sleep 1000000000,
        EvalInfoCall ''eval-1'']"
    using t unfolding a2 by (simp_all add: deployed_eval_def polling_fields numeral_2_eq_2 Second_def)
  from c0 n g r show ?thesis by simp
qed

subsection \<open>status\<close>

text \<open>
  Claim C7. When no deployment identifier was stored, \<open>status\<close> returns success and
  sends nothing. Otherwise, when the deployment reads running, running, successful,
  \<open>status\<close> returns success after the third read: the first query has wait index 1,
  each of the two that follow has the last index of the answer before it, and all
  three allow stale reads and wait at most 5 seconds.
\<close>

theorem status_three_reads:
  "(jobDeploymentID (dpl s) = [] \<longrightarrow> status n b warn s = Some (Inr (), s))
   \<and> (jobDeploymentID (dpl s) \<noteq> [] \<and> cli (dpl s) \<noteq> None
      \<and> DeploymentsInfo b (jobDeploymentID (dpl s))
           \<lparr>WaitIndex = 1, AllowStale = True, WaitTime = 5000000000\<rparr> (sched s) = (Inr (d1, m1), w1)
      \<and> dep_Status d1 = ''running''
      \<and> DeploymentsInfo b (jobDeploymentID (dpl s))
           \<lparr>WaitIndex = LastIndex m1, AllowStale = True, WaitTime = 5000000000\<rparr> w1 = (Inr (d2, m2), w2)
      \<and> dep_Status d2 = ''running''
      \<and> DeploymentsInfo b (jobDeploymentID (dpl s))
           \<lparr>WaitIndex = LastIndex m2, AllowStale = True, WaitTime = 5000000000\<rparr> w2 = (Inr (d3, m3), w3)
      \<and> dep_Status d3 = ''successful''
      \<longrightarrow> status (3 + n) b warn s =
            Some (Inr (),
                  s\<lparr>sched := w3,
                    trace := trace s @
                      [DeploymentInfoCall (jobDeploymentID (dpl s))
                         \<lparr>WaitIndex = 1, AllowStale = True, WaitTime = 5000000000\<rparr>,
                       DeploymentInfoCall (jobDeploymentID (dpl s))
                         \<lparr>WaitIndex = LastIndex m1, AllowStale = True, WaitTime = 5000000000\<rparr>,
                       DeploymentInfoCall (jobDeploymentID (dpl s))
                         \<lparr>WaitIndex = LastIndex m2, AllowStale = True, WaitTime = 5000000000\<rparr>]\<rparr>))"
proof (intro conjI impI)
  assume "jobDeploymentID (dpl s) = []"
  then show "status n b warn s = Some (Inr (), s)"
    by (simp add: status_def)
next
  let ?id = "jobDeploymentID (dpl s)"
  let ?q0 = "\<lparr>WaitIndex = 1, AllowStale = True, WaitTime = 5000000000\<rparr>"
  let ?s1 = "emit [DeploymentInfoCall ?id ?q0] (s\<lparr>sched := w1\<rparr>)"
  let ?q1 = "?q0\<lparr>WaitIndex := LastIndex m1\<rparr>"
  let ?s2 = "emit [DeploymentInfoCall ?id ?q1] (?s1\<lparr>sched := w2\<rparr>)"
  let ?q2 = "?q1\<lparr>WaitIndex := LastIndex m2\<rparr>"
  assume h: "jobDeploymentID (dpl s) \<noteq> [] \<and> cli (dpl s) \<noteq> None
      \<and> DeploymentsInfo b ?id ?q0 (sched s) = (Inr (d1, m1), w1)
      \<and> dep_Status d1 = ''running''
      \<and> DeploymentsInfo b ?id \<lparr>WaitIndex = LastIndex m1, AllowStale = True, WaitTime = 5000000000\<rparr> w1 = (Inr (d2, m2), w2)
      \<and> dep_Status d2 = ''running''
      \<and> DeploymentsInfo b ?id \<lparr>WaitIndex = LastIndex m2, AllowStale = True, WaitTime = 5000000000\<rparr> w2 = (Inr (d3, m3), w3)
      \<and> dep_Status d3 = ''successful''"
  have q: "first_query = ?q0"
    by (simp add: first_query_def Second_def)
  have r1: "status_loop (Suc (Suc (Suc n))) b warn ?id ?q0 s = status_loop (Suc (Suc n)) b warn ?id ?q1 ?s1"
    using h by (intro status_loop_running [where dep = d1]) simp_all
  have r2: "status_loop (Suc (Suc n)) b warn ?id ?q1 ?s1 = status_loop (Suc n) b warn ?id ?q2 ?s2"
    using h by (intro status_loop_running [where dep = d2]) simp_all
  have r3: "status_loop (Suc n) b warn ?id ?q2 ?s2 =
      Some (Inr (), emit [DeploymentInfoCall ?id ?q2] (?s2\<lparr>sched := w3\<rparr>))"
    using h by (intro status_loop_successful [where dep = d3 and meta = m3]) simp_all
  have "status (3 + n) b warn s = status_loop (Suc (Suc (Suc n))) b warn ?id ?q0 s"
    using h by (simp add: status_def q numeral_3_eq_3)
  also have "\<dots> = Some (Inr (), emit [DeploymentInfoCall ?id ?q2] (?s2\<lparr>sched := w3\<rparr>))"
    by (simp only: r1 r2 r3)
  finally show "status (3 + n) b warn s =
            Some (Inr (),
                  s\<lparr>sched := w3,
                    trace := trace s @
                      [DeploymentInfoCall ?id ?q0,
                       DeploymentInfoCall ?id \<lparr>WaitIndex = LastIndex m1, AllowStale = True, WaitTime = 5000000000\<rparr>,
                       DeploymentInfoCall ?id \<lparr>WaitIndex = LastIndex m2, AllowStale = True, WaitTime = 5000000000\<rparr>]\<rparr>)"
    by (simp add: emit_def)
qed


theorem status_three_reads_witness:
  "jobDeploymentID (dpl (ready web_job dc1 quiet)) = []
   \<and> status 0 (scripted_backend service_files) bracket_warn (ready web_job dc1 quiet)
       = Some (Inr (), ready web_job dc1 quiet)
   \<and> trace (ready web_job dc1 quiet) = []
   \<and> jobDeploymentID (dpl (deployed [seen ''running'' [] 10, seen ''running'' [] 12, seen ''successful'' [] 15] (Inr []))) = ''dep-1''
   \<and> map_option fst (status 3 (scripted_backend service_files) bracket_warn
        (deployed [seen ''running'' [] 10, seen ''running'' [] 12, seen ''successful'' [] 15] (Inr [])))
       = Some (Inr ())
   \<and> map_option (\<lambda>out. trace (snd out)) (status 3 (scripted_backend service_files) bracket_warn
        (deployed [seen ''running'' [] 10, seen ''running'' [] 12, seen ''successful'' [] 15] (Inr [])))
       = Some [DeploymentInfoCall ''dep-1'' \<lparr>WaitIndex = 1, AllowStale = True, WaitTime = 5000000000\<rparr>,
               DeploymentInfoCall ''dep-1'' \<lparr>WaitIndex = 10, AllowStale = True, WaitTime = 5000000000\<rparr>,
               DeploymentInfoCall ''dep-1'' \<lparr>WaitIndex = 12, AllowStale = True, WaitTime = 5000000000\<rparr>]"
proof -
  let ?B = "scripted_backend service_files"
  let ?S = "deployed [seen ''running'' [] 10, seen ''running'' [] 12, seen ''successful'' [] 15] (Inr [])"
  let ?r = "\<lparr>dep_Status = ''running'', dep_StatusDescription = []\<rparr>"
  let ?d = "\<lparr>dep_Status = ''successful'', dep_StatusDescription = []\<rparr>"
  let ?w1 = "quiet\<lparr>deps := [seen ''running'' [] 12, seen ''successful'' [] 15], allocs := Inr []\<rparr>"
  let ?w2 = "quiet\<lparr>deps := [seen ''successful'' [] 15], allocs := Inr []\<rparr>"
  let ?w3 = "quiet\<lparr>deps := [], allocs := Inr []\<rparr>"
  have e: "jobDeploymentID (dpl (ready web_job dc1 quiet)) = []"
    by (simp add: ready_def NewDeployer_def)
  have h: "jobDeploymentID (dpl ?S) \<noteq> [] \<and> cli (dpl ?S) \<noteq> None
      \<and> DeploymentsInfo ?B (jobDeploymentID (dpl ?S))
           \<lparr>WaitIndex = 1, AllowStale = True, WaitTime = 5000000000\<rparr> (sched ?S)
          = (Inr (?r, \<lparr>LastIndex = 10\<rparr>), ?w1)
      \<and> dep_Status ?r = ''running''
      \<and> DeploymentsInfo ?B (jobDeploymentID (dpl ?S))
           \<lparr>WaitIndex = LastIndex \<lparr>LastIndex = 10\<rparr>, AllowStale = True, WaitTime = 5000000000\<rparr> ?w1
          = (Inr (?r, \<lparr>LastIndex = 12\<rparr>), ?w2)
      \<and> dep_Status ?r = ''running''
      \<and> DeploymentsInfo ?B (jobDeploymentID (dpl ?S))
           \<lparr>WaitIndex = LastIndex \<lparr>LastIndex = 12\<rparr>, AllowStale = True, WaitTime = 5000000000\<rparr> ?w2
          = (Inr (?d, \<lparr>LastIndex = 15\<rparr>), ?w3)
      \<and> dep_Status ?d = ''successful''"
    by (simp add: deployed_fields scripted_deployment seen_def)
  note t = status_three_reads [of "ready web_job dc1 quiet" 0 ?B bracket_warn]
  note u = status_three_reads [of ?S 0 ?B bracket_warn ?r "\<lparr>LastIndex = 10\<rparr>" ?w1
      ?r "\<lparr>LastIndex = 12\<rparr>" ?w2 ?d "\<lparr>LastIndex = 15\<rparr>" ?w3]
  have a: "status 0 ?B bracket_warn (ready web_job dc1 quiet) = Some (Inr (), ready web_job dc1 quiet)"
    using t e by blast
  have "status (3 + 0) ?B bracket_warn ?S =
      Some (Inr (),
            ?S\<lparr>sched := ?w3,
               trace := trace ?S @
                 [DeploymentInfoCall (jobDeploymentID (dpl ?S))
                    \<lparr>WaitIndex = 1, AllowStale = True, WaitTime = 5000000000\<rparr>,
                  DeploymentInfoCall (jobDeploymentID (dpl ?S))
                    \<lparr>WaitIndex = LastIndex \<lparr>LastIndex = 10\<rparr>, AllowStale = True, WaitTime = 5000000000\<rparr>,
                  DeploymentInfoCall (jobDeploymentID (dpl ?S))
                    \<lparr>WaitIndex = LastIndex \<lparr>LastIndex = 12\<rparr>, AllowStale = True, WaitTime = 5000000000\<rparr>]\<rparr>)"
    using u h by blast
  then have b: "status 3 ?B bracket_warn ?S =
      Some (Inr (),
            ?S\<lparr>sched := ?w3,
               trace :=
                 [DeploymentInfoCall ''dep-1'' \<lparr>WaitIndex = 1, AllowStale = True, WaitTime = 5000000000\<rparr>,
                  DeploymentInfoCall ''dep-1'' \<lparr>WaitIndex = 10, AllowStale = True, WaitTime = 5000000000\<rparr>,
                  DeploymentInfoCall ''dep-1'' \<lparr>WaitIndex = 12, AllowStale = True, WaitTime = 5000000000\<rparr>]\<rparr>)"
    by (simp add: deployed_fields)
  show ?thesis
    unfolding a b by (simp add: deployed_fields ready_fields e)
qed

text \<open>
  Claim C3, as amended. When a round of \<open>status\<close> reads a deployment status that is
  neither running nor successful, it asks for the deployment's allocations and returns
  exactly one error, whose message \<open>deployment failed status: <status> <description>\<close>
  carries the status and the status description only. The diagnostics are not in the
  error: for every event, across all allocations and task states, that has a
  non-empty driver, download, validation, setup or vault error, the five fields,
  each through \<open>warn\<close>, are written to standard output. When the allocation query
  fails, the same error is returned and nothing is written.
\<close>

theorem status_failure_report:
  assumes "cli (dpl s) \<noteq> None" "DeploymentsInfo b depID q (sched s) = (Inr (dep, meta), w)"
    "dep_Status dep \<noteq> ''running''" "dep_Status dep \<noteq> ''successful''"
  shows "status_loop (Suc n) b warn depID q s =
           Some (Inl (Err (''deployment failed status: '' @ dep_Status dep @ '' '' @ dep_StatusDescription dep)),
                 s\<lparr>sched := snd (DeploymentsAllocations b depID w),
                   trace := trace s @ [DeploymentInfoCall depID q, AllocationsCall depID]
                     @ (case fst (DeploymentsAllocations b depID w) of
                          Inl _ \<Rightarrow> []
                        | Inr al \<Rightarrow>
                            map (\<lambda>e. Printf (warn (DriverError e) @ warn (DownloadError e) @
                                             warn (ValidationError e) @ warn (SetupError e) @
                                             warn (VaultError e)))
                              (filter has_error (all_events al)))\<rparr>)
         \<and> (jobDeploymentID (dpl s) \<noteq> [] \<longrightarrow>
               status n b warn s =
                 status_loop n b warn (jobDeploymentID (dpl s))
                   \<lparr>WaitIndex = 1, AllowStale = True, WaitTime = 5000000000\<rparr> s)"
proof -
  have "status_loop (Suc n) b warn depID q s =
     Some (Inl (Err (failed_message dep)),
           emit ([DeploymentInfoCall depID q, AllocationsCall depID]
                   @ (case fst (DeploymentsAllocations b depID w) of
                        Inl _ \<Rightarrow> [] | Inr al \<Rightarrow> show_errors warn al))
             (s\<lparr>sched := snd (DeploymentsAllocations b depID w)\<rparr>))"
    using assms by (rule status_loop_failed)
  then have l: "status_loop (Suc n) b warn depID q s =
           Some (Inl (Err (''deployment failed status: '' @ dep_Status dep @ '' '' @ dep_StatusDescription dep)),
                 s\<lparr>sched := snd (DeploymentsAllocations b depID w),
                   trace := trace s @ [DeploymentInfoCall depID q, AllocationsCall depID]
                     @ (case fst (DeploymentsAllocations b depID w) of
                          Inl _ \<Rightarrow> []
                        | Inr al \<Rightarrow>
                            map (\<lambda>e. Printf (warn (DriverError e) @ warn (DownloadError e) @
                                             warn (ValidationError e) @ warn (SetupError e) @
                                             warn (VaultError e)))
                              (filter has_error (all_events al)))\<rparr>)"
    by (simp add: failed_message_def emit_def show_errors_filter split: sum.splits)
  have f: "jobDeploymentID (dpl s) \<noteq> [] \<longrightarrow>
       status n b warn s =
         status_loop n b warn (jobDeploymentID (dpl s))
           \<lparr>WaitIndex = 1, AllowStale = True, WaitTime = 5000000000\<rparr> s"
    by (simp add: status_def first_query_def Second_def)
  show ?thesis
    using l f by (intro conjI) assumption+
qed

text \<open>
  A deployment that failed with one event carrying a driver error: with the
  allocations at hand, and with the allocation query failing.
\<close>

theorem status_failure_report_witness:
  "map_option fst (status 1 (scripted_backend service_files) bracket_warn
        (deployed [seen ''failed'' ''unhealthy allocations'' 20] (Inr oom_allocs)))
     = Some (Inl (Err ''deployment failed status: failed unhealthy allocations''))
   \<and> map_option (\<lambda>out. trace (snd out)) (status 1 (scripted_backend service_files) bracket_warn
        (deployed [seen ''failed'' ''unhealthy allocations'' 20] (Inr oom_allocs)))
     = Some [DeploymentInfoCall ''dep-1'' \<lparr>WaitIndex = 1, AllowStale = True, WaitTime = 5000000000\<rparr>,
             AllocationsCall ''dep-1'', Printf ''[OOM killed]'']
   \<and> map_option fst (status 1 (scripted_backend service_files) bracket_warn
        (deployed [seen ''failed'' ''unhealthy allocations'' 20] (Inl (Err ''no route to host''))))
     = Some (Inl (Err ''deployment failed status: failed unhealthy allocations''))
   \<and> map_option (\<lambda>out. trace (snd out)) (status 1 (scripted_backend service_files) bracket_warn
        (deployed [seen ''failed'' ''unhealthy allocations'' 20] (Inl (Err ''no route to host''))))
     = Some [DeploymentInfoCall ''dep-1'' \<lparr>WaitIndex = 1, AllowStale = True, WaitTime = 5000000000\<rparr>,
             AllocationsCall ''dep-1'']"
proof -
  let ?B = "scripted_backend service_files"
  let ?q = "\<lparr>WaitIndex = 1, AllowStale = True, WaitTime = 5000000000\<rparr>"
  let ?f = "\<lparr>dep_Status = ''failed'', dep_StatusDescription = ''unhealthy allocations''\<rparr>"
  have ev: "filter has_error (all_events oom_allocs) = [oom_event]"
    by (simp add: all_events_def oom_allocs_def has_error_def oom_event_def started_event_def)
  have pr: "bracket_warn (DriverError oom_event) @ bracket_warn (DownloadError oom_event) @
      bracket_warn (ValidationError oom_event) @ bracket_warn (SetupError oom_event) @
      bracket_warn (VaultError oom_event) = ''[OOM killed]''"
    by (simp add: bracket_warn_def oom_event_def)
  have run: "map_option fst (status 1 ?B bracket_warn (deployed [seen ''failed'' ''unhealthy allocations'' 20] al))
        = Some (Inl (Err ''deployment failed status: failed unhealthy allocations''))
      \<and> map_option (\<lambda>out. trace (snd out)) (status 1 ?B bracket_warn (deployed [seen ''failed'' ''unhealthy allocations'' 20] al))
        = Some ([DeploymentInfoCall ''dep-1'' ?q, AllocationsCall ''dep-1'']
             @ (case al of Inl _ \<Rightarrow> []
                | Inr l \<Rightarrow> map (\<lambda>e. Printf (bracket_warn (DriverError e) @ bracket_warn (DownloadError e) @
                                             bracket_warn (ValidationError e) @ bracket_warn (SetupError e) @
                                             bracket_warn (VaultError e)))
                              (filter has_error (all_events l))))" for al
  proof -
    let ?S = "deployed [seen ''failed'' ''unhealthy allocations'' 20] al"
    have c: "cli (dpl ?S) \<noteq> None"
      by (simp add: deployed_fields)
    have d: "DeploymentsInfo ?B ''dep-1'' ?q (sched ?S) = (Inr (?f, \<lparr>LastIndex = 20\<rparr>), quiet\<lparr>deps := [], allocs := al\<rparr>)"
      by (simp add: deployed_fields scripted_deployment seen_def)
    have n: "dep_Status ?f \<noteq> ''running''" "dep_Status ?f \<noteq> ''successful''"
      by simp_all
    have i: "jobDeploymentID (dpl ?S) \<noteq> []"
      by (simp add: deployed_fields)
    note t = status_failure_report [OF c d n, of 0 bracket_warn]
    have "status 1 ?B bracket_warn ?S = status_loop (Suc 0) ?B bracket_warn ''dep-1'' ?q ?S"
      using status_failure_report [OF c d n, of 1 bracket_warn] i by (simp add: deployed_fields)
    then show ?thesis
      using t by (simp add: scripted_allocations deployed_fields)
  qed
  from run [of "Inr oom_allocs"] run [of "Inl (Err ''no route to host'')"] show ?thesis
    by (simp add: ev pr)
qed

text \<open>
  Claim C3 as stated has the driver error text in the reported error message. Here
  the one failing event says \<open>OOM killed\<close>; the message does not.
\<close>

theorem status_failure_report_counterexample:
  "filter has_error (all_events oom_allocs) = [oom_event]
   \<and> DriverError oom_event = ''OOM killed''
   \<and> map_option fst (status 1 (scripted_backend service_files) bracket_warn
        (deployed [seen ''failed'' ''unhealthy allocations'' 20] (Inr oom_allocs)))
     = Some (Inl (Err ''deployment failed status: failed unhealthy allocations''))
   \<and> \<not> sublist ''OOM killed'' ''deployment failed status: failed unhealthy allocations''"
proof -
  have "CHR ''O'' \<notin> set ''deployment failed status: failed unhealthy allocations''"
    by simp
  then have n: "\<not> sublist ''OOM killed'' ''deployment failed status: failed unhealthy allocations''"
    by (auto dest: set_mono_sublist)
  have e: "filter has_error (all_events oom_allocs) = [oom_event]" "DriverError oom_event = ''OOM killed''"
    by (simp_all add: all_events_def oom_allocs_def has_error_def oom_event_def started_event_def)
  have "map_option fst (status 1 (scripted_backend service_files) bracket_warn
        (deployed [seen ''failed'' ''unhealthy allocations'' 20] (Inr oom_allocs)))
     = Some (Inl (Err ''deployment failed status: failed unhealthy allocations''))"
    by (simp add: status_def deployed_fields scripted_deployment scripted_allocations seen_def
        failed_message_def DeploymentStatusRunning_def DeploymentStatusSuccessful_def)
  with n e show ?thesis by simp
qed

end
